theory Spec2Isabelle
  imports Main "HOL-Library.AList" "HOL-Library.Char_ord" "HOL-Library.List_Lexorder"
begin

section \<open>Python values\<close>

text \<open>
  The integration handles values typed \<^verbatim>\<open>Any\<close>: the fields of a camera dict, the
  options and data of a config entry, a decoded JSON payload. They are modelled by
  \<open>pyval\<close>. A dict is an association list in insertion order: \<open>map_of\<close> reads a
  key, \<open>AList.update\<close> assigns one (an existing key keeps its place, a new key goes
  last, as in Python). Strings are byte strings (UTF-8). Floats are left out.
\<close>

datatype pyval =
    PNone
  | PBool bool
  | PInt int
  | PStr string
  | PList "pyval list"
  | PDict "(string \<times> pyval) list"

type_synonym pydict = "(string \<times> pyval) list"

text \<open>The exceptions that the modelled code raises or lets through.\<close>

datatype exn =
    KeyError
  | TypeError
  | ValueError
  | MotionEyeClientInvalidAuthError
  | MotionEyeClientError
  | ConfigEntryAuthFailed
  | ConfigEntryNotReady

text \<open>\<^verbatim>\<open>bool(v)\<close>: the truth value of a Python value.\<close>

fun truthy :: "pyval \<Rightarrow> bool" where
  "truthy PNone = False"
| "truthy (PBool b) = b"
| "truthy (PInt i) = (i \<noteq> 0)"
| "truthy (PStr s) = (s \<noteq> [])"
| "truthy (PList xs) = (xs \<noteq> [])"
| "truthy (PDict kvs) = (kvs \<noteq> [])"

text \<open>\<^verbatim>\<open>k in d\<close>, \<^verbatim>\<open>d.get(k)\<close>, \<^verbatim>\<open>d.get(k, default)\<close> and \<^verbatim>\<open>d[k]\<close> on a dict.\<close>

definition has_key :: "pydict \<Rightarrow> string \<Rightarrow> bool" where
  "has_key d k = (map_of d k \<noteq> None)"

definition dict_get_default :: "pydict \<Rightarrow> string \<Rightarrow> pyval \<Rightarrow> pyval" where
  "dict_get_default d k dflt = (case map_of d k of None \<Rightarrow> dflt | Some v \<Rightarrow> v)"

definition dict_get :: "pydict \<Rightarrow> string \<Rightarrow> pyval" where
  "dict_get d k = dict_get_default d k PNone"

definition dict_item :: "pydict \<Rightarrow> string \<Rightarrow> exn + pyval" where
  "dict_item d k = (case map_of d k of None \<Rightarrow> Inl KeyError | Some v \<Rightarrow> Inr v)"

text \<open>\<^verbatim>\<open>needle in hay\<close> on two strings: \<open>needle\<close> occurs in \<open>hay\<close>.\<close>

fun is_substring :: "string \<Rightarrow> string \<Rightarrow> bool" where
  "is_substring needle [] = (needle = [])"
| "is_substring needle (c # cs) =
     (take (length needle) (c # cs) = needle \<or> is_substring needle cs)"

text \<open>
  \<^verbatim>\<open>s in v\<close> for a string \<open>s\<close> and any value \<open>v\<close>: a substring test on a string,
  membership in a list, a key test on a dict, and a \<^verbatim>\<open>TypeError\<close> on a value that is
  not iterable.
\<close>

fun py_in :: "string \<Rightarrow> pyval \<Rightarrow> exn + bool" where
  "py_in s (PStr t) = Inr (is_substring s t)"
| "py_in s (PList xs) = Inr (PStr s \<in> set xs)"
| "py_in s (PDict kvs) = Inr (has_key kvs s)"
| "py_in s PNone = Inl TypeError"
| "py_in s (PBool b) = Inl TypeError"
| "py_in s (PInt i) = Inl TypeError"


section \<open>Constants and collaborators that the module imports\<close>

text \<open>
  The module reads its constants from \<^verbatim>\<open>motioneye_client.const\<close>,
  \<^verbatim>\<open>homeassistant.const\<close> and its own \<^verbatim>\<open>.const\<close>, and calls
  \<^verbatim>\<open>urllib.parse.urljoin\<close>, the webhook component's \<^verbatim>\<open>async_generate_path\<close> and
  Python's \<^verbatim>\<open>str()\<close> (inside f-strings). None of them is defined in the module, so
  all are parameters of the model: every theorem below holds whatever their values.
  \<open>SIGNAL_CAMERA_ADD\<close> is a format string with one hole, here the function that fills it.
  The random ids that the hub draws (a device's id, a generated webhook id) are the
  values of two sequences, \<open>uuid_hex\<close> and \<open>token_hex\<close>, read at a counter kept in the
  state.
\<close>

record env =
  DOMAIN :: string
  KEY_CAMERAS :: string
  KEY_ID :: string
  KEY_NAME :: string
  KEY_HTTP_METHOD_POST_JSON :: string
  KEY_WEB_HOOK_CONVERSION_SPECIFIERS :: "(string \<times> string) list"
  KEY_WEB_HOOK_NOTIFICATIONS_ENABLED :: string
  KEY_WEB_HOOK_NOTIFICATIONS_HTTP_METHOD :: string
  KEY_WEB_HOOK_NOTIFICATIONS_URL :: string
  KEY_WEB_HOOK_STORAGE_ENABLED :: string
  KEY_WEB_HOOK_STORAGE_HTTP_METHOD :: string
  KEY_WEB_HOOK_STORAGE_URL :: string
  ATTR_DEVICE_ID :: string
  ATTR_NAME :: string
  ATTR_EVENT_TYPE :: string
  ATTR_WEBHOOK_ID :: string
  CONF_URL :: string
  CONF_WEBHOOK_ID :: string
  CONF_ADMIN_PASSWORD :: string
  CONF_ADMIN_USERNAME :: string
  CONF_SURVEILLANCE_PASSWORD :: string
  CONF_SURVEILLANCE_USERNAME :: string
  CONF_WEBHOOK_SET :: string
  CONF_WEBHOOK_SET_OVERWRITE :: string
  DEFAULT_WEBHOOK_SET :: bool
  DEFAULT_WEBHOOK_SET_OVERWRITE :: bool
  EVENT_FILE_STORED :: string
  EVENT_FILE_STORED_KEYS :: "string list"
  EVENT_MOTION_DETECTED :: string
  EVENT_MOTION_DETECTED_KEYS :: "string list"
  MOTIONEYE_MANUFACTURER :: string
  SIGNAL_CAMERA_ADD :: "string \<Rightarrow> string"
  WEB_HOOK_SENTINEL_KEY :: string
  WEB_HOOK_SENTINEL_VALUE :: string
  py_str :: "pyval \<Rightarrow> string"
  urljoin :: "string \<Rightarrow> string \<Rightarrow> string"
  async_generate_path :: "pyval \<Rightarrow> string"
  uuid_hex :: "nat \<Rightarrow> string"
  token_hex :: "nat \<Rightarrow> string"

text \<open>A config entry: its id, its stored data and its options.\<close>

record config_entry =
  entry_id :: string
  data :: pydict
  options :: pydict


section \<open>Setting a web hook on a camera dict\<close>

text \<open>
  \<^verbatim>\<open>_is_recognized_web_hook(url)\<close>: the sentinel \<^verbatim>\<open>key=value\<close> occurs in the URL. The
  argument is the camera's own field, of any type.
\<close>

definition is_recognized_web_hook :: "env \<Rightarrow> pyval \<Rightarrow> exn + bool" where
  "is_recognized_web_hook c url =
     py_in (WEB_HOOK_SENTINEL_KEY c @ ''='' @ WEB_HOOK_SENTINEL_VALUE c) url"

text \<open>The value of the overwrite option, with its default.\<close>

definition overwrite_option :: "env \<Rightarrow> config_entry \<Rightarrow> pyval" where
  "overwrite_option c entry =
     dict_get_default (options entry) (CONF_WEBHOOK_SET_OVERWRITE c)
       (PBool (DEFAULT_WEBHOOK_SET_OVERWRITE c))"

text \<open>
  The first operand of the \<^verbatim>\<open>and\<close> in \<^verbatim>\<open>_set_webhook\<close>, evaluated left to right
  with Python's short-circuit \<^verbatim>\<open>or\<close>: the sentinel test runs only when overwrite is
  off and the camera's URL field is truthy.
\<close>

definition may_set :: "env \<Rightarrow> config_entry \<Rightarrow> string \<Rightarrow> pydict \<Rightarrow> exn + bool" where
  "may_set c entry key_url camera =
     (if truthy (overwrite_option c entry) then Inr True
      else if \<not> truthy (dict_get camera key_url) then Inr True
      else (case dict_item camera key_url of
              Inl e \<Rightarrow> Inl e
            | Inr u \<Rightarrow> is_recognized_web_hook c u))"

text \<open>The second operand: the three fields are not yet what they would be set to.\<close>

definition differs :: "env \<Rightarrow> string \<Rightarrow> string \<Rightarrow> string \<Rightarrow> string \<Rightarrow> pydict \<Rightarrow> bool" where
  "differs c url key_url key_method key_enabled camera =
     (\<not> truthy (dict_get_default camera key_enabled (PBool False))
      \<or> dict_get camera key_method \<noteq> PStr (KEY_HTTP_METHOD_POST_JSON c)
      \<or> dict_get camera key_url \<noteq> PStr url)"

text \<open>The three assignments, in the source's order.\<close>

definition assign_webhook :: "env \<Rightarrow> string \<Rightarrow> string \<Rightarrow> string \<Rightarrow> string \<Rightarrow> pydict \<Rightarrow> pydict" where
  "assign_webhook c url key_url key_method key_enabled camera =
     AList.update key_url (PStr url)
       (AList.update key_method (PStr (KEY_HTTP_METHOD_POST_JSON c))
         (AList.update key_enabled (PBool True) camera))"

text \<open>
  \<^verbatim>\<open>_set_webhook\<close>. The Python mutates \<open>camera\<close> in place and returns a bool; the
  model returns the bool and the camera dict after the call, or the exception.
\<close>

definition set_webhook ::
  "env \<Rightarrow> config_entry \<Rightarrow> string \<Rightarrow> string \<Rightarrow> string \<Rightarrow> string \<Rightarrow> pydict \<Rightarrow> exn + (bool \<times> pydict)" where
  "set_webhook c entry url key_url key_method key_enabled camera =
     (case may_set c entry key_url camera of
        Inl e \<Rightarrow> Inl e
      | Inr allowed \<Rightarrow>
          if allowed \<and> differs c url key_url key_method key_enabled camera
          then Inr (True, assign_webhook c url key_url key_method key_enabled camera)
          else Inr (False, camera))"


section \<open>Building the web hook URL\<close>

text \<open>
  \<^verbatim>\<open>urllib.parse.quote\<close>, \<^verbatim>\<open>quote_plus\<close> and \<^verbatim>\<open>urlencode\<close> on strings, as the
  standard library documents them: a byte is kept when it is a letter, a digit, one of
  \<^verbatim>\<open>_.-~\<close> or an ASCII character of \<open>safe\<close>, and written \<^verbatim>\<open>%XX\<close> (upper-case hex)
  otherwise; \<^verbatim>\<open>quote_plus\<close> writes a space as \<^verbatim>\<open>+\<close>; \<^verbatim>\<open>urlencode\<close> joins
  \<^verbatim>\<open>key=value\<close> pairs with \<^verbatim>\<open>&\<close> in the order of the dict.
\<close>

definition always_safe :: string where
  "always_safe = ''ABCDEFGHIJKLMNOPQRSTUVWXYZabcdefghijklmnopqrstuvwxyz0123456789_.-~''"

definition hex_digit :: "nat \<Rightarrow> char" where
  "hex_digit n = ''0123456789ABCDEF'' ! (n mod 16)"

definition percent_encode :: "char \<Rightarrow> string" where
  "percent_encode ch =
     [CHR ''%'', hex_digit ((of_char ch :: nat) div 16), hex_digit ((of_char ch :: nat) mod 16)]"

definition quote_byte :: "string \<Rightarrow> char \<Rightarrow> string" where
  "quote_byte safe ch =
     (if ch \<in> set always_safe \<or> (ch \<in> set safe \<and> (of_char ch :: nat) < 128) then [ch]
      else percent_encode ch)"

definition quote :: "string \<Rightarrow> string \<Rightarrow> string" where
  "quote safe s = concat (map (quote_byte safe) s)"

definition quote_plus :: "string \<Rightarrow> string \<Rightarrow> string" where
  "quote_plus safe s =
     (if CHR '' '' \<notin> set s then quote safe s
      else map (\<lambda>ch. if ch = CHR '' '' then CHR ''+'' else ch) (quote (safe @ '' '') s))"

fun join :: "string \<Rightarrow> string list \<Rightarrow> string" where
  "join sep [] = []"
| "join sep [x] = x"
| "join sep (x # y # ys) = x @ sep @ join sep (y # ys)"

definition urlencode :: "string \<Rightarrow> (string \<times> string) list \<Rightarrow> string" where
  "urlencode safe query =
     join ''&'' (map (\<lambda>(k, v). quote_plus safe k @ ''='' @ quote_plus safe v) query)"

text \<open>
  A device of the hub's device registry, with the fields the module reads or sets.
\<close>

record device_entry =
  id' :: string
  name :: pyval
  identifiers :: "(string \<times> string) set"
  config_entries :: "string set"
  manufacturer :: string
  model :: string

text \<open>
  The dict comprehension \<^verbatim>\<open>{k: KEY_WEB_HOOK_CONVERSION_SPECIFIERS[k] for k in ...}\<close>:
  the keys are taken in the given order, a key that the table lacks raises
  \<^verbatim>\<open>KeyError\<close>.
\<close>

fun specifiers_for ::
  "(string \<times> string) list \<Rightarrow> string list \<Rightarrow> (string \<times> string) list \<Rightarrow> exn + (string \<times> string) list" where
  "specifiers_for table [] acc = Inr acc"
| "specifiers_for table (k # ks) acc =
     (case map_of table k of
        None \<Rightarrow> Inl KeyError
      | Some v \<Rightarrow> specifiers_for table ks (AList.update k v acc))"

text \<open>
  \<^verbatim>\<open>_build_url\<close>. \<^verbatim>\<open>sorted\<close> orders strings by code point, which on UTF-8 bytes
  is the lexicographic order of the bytes.
\<close>

definition build_url :: "env \<Rightarrow> device_entry \<Rightarrow> string \<Rightarrow> string \<Rightarrow> string list \<Rightarrow> exn + string" where
  "build_url c device base event_type keys =
     (case specifiers_for (KEY_WEB_HOOK_CONVERSION_SPECIFIERS c) (sort keys) [] of
        Inl e \<Rightarrow> Inl e
      | Inr specifiers \<Rightarrow>
          Inr (urljoin c base
                (''?'' @ urlencode ''%{}''
                   (AList.update (ATTR_DEVICE_ID c) (id' device)
                     (AList.update (ATTR_EVENT_TYPE c) event_type
                       (AList.update (WEB_HOOK_SENTINEL_KEY c) (WEB_HOOK_SENTINEL_VALUE c)
                          specifiers))))))"


section \<open>The hub: device registry, dispatcher, event bus, webhooks\<close>

text \<open>
  What the module sees and changes outside itself. \<open>devices\<close> is the device registry,
  \<open>get_url\<close> the hub's own URL (\<open>None\<close> when \<^verbatim>\<open>get_url\<close> raises
  \<^verbatim>\<open>NoURLAvailableError\<close>), \<open>webhooks\<close> the registered webhook handlers by id,
  \<open>hass_data\<close> the value of \<^verbatim>\<open>hass.data.get(DOMAIN)\<close>. Calls that only have an effect
  outside are kept as logs, latest last: \<open>dispatched\<close> (dispatcher signals), \<open>bus\<close>
  (events fired), \<open>tasks\<close> (coroutines handed to \<^verbatim>\<open>hass.async_create_task\<close>) and
  \<open>client_calls\<close> (calls on the motionEye client). \<open>current_cameras\<close> is the set of that
  name in the closure of \<^verbatim>\<open>async_setup_entry\<close>.
\<close>

record client =
  client_url :: pyval
  admin_username :: pyval
  admin_password :: pyval
  surveillance_username :: pyval
  surveillance_password :: pyval

record coordinator =
  coordinator_name :: string

record config_data =
  conf_client :: client
  conf_coordinator :: coordinator

datatype task =
    Async_set_camera pyval pydict
  | Setup_then_listen string

datatype client_call = Async_client_login | Async_client_close

datatype handler = Handle_webhook

record webhook =
  webhook_domain :: string
  webhook_name :: string
  webhook_handler :: handler

record state =
  devices :: "device_entry list"
  get_url :: "string option"
  webhooks :: "(pyval \<times> webhook) list"
  hass_data :: "(string \<times> config_data) list option"
  dispatched :: "(string \<times> pydict) list"
  bus :: "(string \<times> pydict) list"
  tasks :: "task list"
  client_calls :: "client_call list"
  current_cameras :: "(string \<times> string) set"
  counter :: nat

text \<open>A value that can be a dict key: Python refuses a list or a dict.\<close>

fun hashable :: "pyval \<Rightarrow> bool" where
  "hashable (PList xs) = False"
| "hashable (PDict kvs) = False"
| "hashable v = True"

text \<open>
  The hub's device registry (\<^verbatim>\<open>homeassistant.helpers.device_registry\<close>) is not
  among the sources; the spec names it as the external registry into which the module
  mirrors cameras: it "adds new ones, removes stale ones". Its four operations that the
  module calls are modelled on the list of devices.
\<close>

fun replace_first :: "('a \<Rightarrow> bool) \<Rightarrow> 'a \<Rightarrow> 'a list \<Rightarrow> 'a list" where
  "replace_first P y [] = []"
| "replace_first P y (x # xs) = (if P x then y # xs else x # replace_first P y xs)"

text \<open>
  Modelled from the spec: \<^verbatim>\<open>DeviceRegistry.async_get_or_create\<close>, missing from the
  sources. It returns the device that bears the identifier, now linked to the config
  entry and with the given manufacturer, model and name; when no device bears the
  identifier it creates one under the new id.
\<close>

definition async_get_or_create ::
  "string \<Rightarrow> string \<Rightarrow> (string \<times> string) \<Rightarrow> string \<Rightarrow> string \<Rightarrow> pyval \<Rightarrow> device_entry list
     \<Rightarrow> device_entry \<times> device_entry list" where
  "async_get_or_create new_id config_entry_id identifier manuf mdl nm devs =
     (case find (\<lambda>d. identifier \<in> identifiers d) devs of
        None \<Rightarrow>
          (let d = \<lparr> id' = new_id, name = nm, identifiers = {identifier},
                     config_entries = {config_entry_id}, manufacturer = manuf, model = mdl \<rparr>
           in (d, devs @ [d]))
      | Some d \<Rightarrow>
          (let d' = d \<lparr> name := nm, config_entries := insert config_entry_id (config_entries d),
                        manufacturer := manuf, model := mdl \<rparr>
           in (d', replace_first (\<lambda>x. identifier \<in> identifiers x) d' devs)))"

text \<open>
  Modelled from the spec: \<^verbatim>\<open>device_registry.async_entries_for_config_entry\<close>,
  missing from the sources: the devices registered to the config entry.
\<close>

definition async_entries_for_config_entry :: "device_entry list \<Rightarrow> string \<Rightarrow> device_entry list" where
  "async_entries_for_config_entry devs config_entry_id =
     filter (\<lambda>d. config_entry_id \<in> config_entries d) devs"

text \<open>
  Modelled from the spec: \<^verbatim>\<open>DeviceRegistry.async_remove_device\<close>, missing from the
  sources: the device of the given id is removed from the registry.
\<close>

definition async_remove_device :: "string \<Rightarrow> device_entry list \<Rightarrow> device_entry list" where
  "async_remove_device device_id devs = filter (\<lambda>d. id' d \<noteq> device_id) devs"

text \<open>
  Modelled from the spec: \<^verbatim>\<open>DeviceRegistry.async_get\<close>, missing from the sources,
  by which the webhook receiver "resolves the referenced device": the device of the
  given id, if any. The registry keeps its devices in a dict by id, so an id that is a
  list or a dict raises \<^verbatim>\<open>TypeError\<close>.
\<close>

definition async_get :: "device_entry list \<Rightarrow> pyval \<Rightarrow> exn + device_entry option" where
  "async_get devs device_id =
     (if \<not> hashable device_id then Inl TypeError
      else Inr (find (\<lambda>d. PStr (id' d) = device_id) devs))"


section \<open>Adding a camera\<close>

text \<open>\<^verbatim>\<open>get_motioneye_device_identifier\<close>: the f-string formats the camera id with \<^verbatim>\<open>str()\<close>.\<close>

definition get_motioneye_device_identifier :: "env \<Rightarrow> string \<Rightarrow> pyval \<Rightarrow> string \<times> string" where
  "get_motioneye_device_identifier c config_entry_id camera_id =
     (DOMAIN c, config_entry_id @ ''_'' @ py_str c camera_id)"

text \<open>\<^verbatim>\<open>is_acceptable_camera\<close>, on a camera that is \<^verbatim>\<open>None\<close> or a dict.\<close>

definition is_acceptable_camera :: "env \<Rightarrow> pydict option \<Rightarrow> bool" where
  "is_acceptable_camera c camera =
     (case camera of
        None \<Rightarrow> False
      | Some cam \<Rightarrow> cam \<noteq> [] \<and> has_key cam (KEY_ID c) \<and> has_key cam (KEY_NAME c))"

text \<open>\<^verbatim>\<open>async_generate_motioneye_webhook\<close>: \<^verbatim>\<open>None\<close> when the hub has no URL.\<close>

definition async_generate_motioneye_webhook :: "env \<Rightarrow> state \<Rightarrow> pyval \<Rightarrow> string option" where
  "async_generate_motioneye_webhook c s webhook_id =
     (case get_url s of
        None \<Rightarrow> None
      | Some u \<Rightarrow> Some (u @ async_generate_path c webhook_id))"

text \<open>
  The two \<^verbatim>\<open>_set_webhook\<close> calls of \<^verbatim>\<open>_add_camera\<close> on a non-empty hub URL, each
  with the URL that \<^verbatim>\<open>_build_url\<close> gives: the result is whether either call set its
  hook, and the camera dict after both.
\<close>

definition set_webhooks ::
  "env \<Rightarrow> config_entry \<Rightarrow> device_entry \<Rightarrow> string \<Rightarrow> pydict \<Rightarrow> exn + (bool \<times> pydict)" where
  "set_webhooks c entry device url camera =
     (case build_url c device url (EVENT_MOTION_DETECTED c) (EVENT_MOTION_DETECTED_KEYS c) of
        Inl e \<Rightarrow> Inl e
      | Inr motion_url \<Rightarrow>
     (case set_webhook c entry motion_url (KEY_WEB_HOOK_NOTIFICATIONS_URL c)
             (KEY_WEB_HOOK_NOTIFICATIONS_HTTP_METHOD c) (KEY_WEB_HOOK_NOTIFICATIONS_ENABLED c) camera of
        Inl e \<Rightarrow> Inl e
      | Inr (set_motion_event, camera1) \<Rightarrow>
     (case build_url c device url (EVENT_FILE_STORED c) (EVENT_FILE_STORED_KEYS c) of
        Inl e \<Rightarrow> Inl e
      | Inr storage_url \<Rightarrow>
     (case set_webhook c entry storage_url (KEY_WEB_HOOK_STORAGE_URL c)
             (KEY_WEB_HOOK_STORAGE_HTTP_METHOD c) (KEY_WEB_HOOK_STORAGE_ENABLED c) camera1 of
        Inl e \<Rightarrow> Inl e
      | Inr (set_storage_event, camera2) \<Rightarrow>
          Inr (set_motion_event \<or> set_storage_event, camera2)))))"

text \<open>
  The web hook part of \<^verbatim>\<open>_add_camera\<close>: nothing when the option is off, the hub has
  no URL or the URL is empty; otherwise the hooks are set and, when either changed, the
  camera is pushed to the device in a task. The result is the camera dict afterwards.
\<close>

definition configure_webhooks ::
  "env \<Rightarrow> config_entry \<Rightarrow> device_entry \<Rightarrow> pyval \<Rightarrow> pydict \<Rightarrow> state \<Rightarrow> exn + (pydict \<times> state)" where
  "configure_webhooks c entry device camera_id camera s =
     (if \<not> truthy (dict_get_default (options entry) (CONF_WEBHOOK_SET c) (PBool (DEFAULT_WEBHOOK_SET c)))
      then Inr (camera, s)
      else (case dict_item (data entry) (CONF_WEBHOOK_ID c) of
              Inl e \<Rightarrow> Inl e
            | Inr webhook_id \<Rightarrow>
                (case async_generate_motioneye_webhook c s webhook_id of
                   None \<Rightarrow> Inr (camera, s)
                 | Some url \<Rightarrow>
                     if url = [] then Inr (camera, s)
                     else (case set_webhooks c entry device url camera of
                             Inl e \<Rightarrow> Inl e
                           | Inr (changed, camera') \<Rightarrow>
                               Inr (camera',
                                    if changed
                                    then s \<lparr> tasks := tasks s @ [Async_set_camera camera_id camera'] \<rparr>
                                    else s)))))"

text \<open>
  \<^verbatim>\<open>_add_camera\<close>: the device is fetched or created, the web hooks are configured,
  the camera is announced on the dispatcher. An exception leaves the state as it was
  when it was raised: the device stays, nothing is dispatched.
\<close>

definition add_camera ::
  "env \<Rightarrow> config_entry \<Rightarrow> pyval \<Rightarrow> pydict \<Rightarrow> (string \<times> string) \<Rightarrow> state \<Rightarrow> exn option \<times> state" where
  "add_camera c entry camera_id camera device_identifier s =
     (case dict_item camera (KEY_NAME c) of
        Inl e \<Rightarrow> (Some e, s)
      | Inr nm \<Rightarrow>
          (let (device, devs) =
                 async_get_or_create (uuid_hex c (counter s)) (entry_id entry) device_identifier
                   (MOTIONEYE_MANUFACTURER c) (MOTIONEYE_MANUFACTURER c) nm (devices s);
               s1 = s \<lparr> devices := devs, counter := Suc (counter s) \<rparr>
           in (case configure_webhooks c entry device camera_id camera s1 of
                 Inl e \<Rightarrow> (Some e, s1)
               | Inr (camera', s2) \<Rightarrow>
                   (None, s2 \<lparr> dispatched :=
                                 dispatched s2 @ [(SIGNAL_CAMERA_ADD c (entry_id entry), camera')] \<rparr>))))"


section \<open>Processing a poll\<close>

text \<open>
  How the first loop of \<^verbatim>\<open>_async_process_motioneye_cameras\<close> ends: it runs through
  the list (with the set \<^verbatim>\<open>inbound_camera\<close> it built), it returns from the function at
  a camera that is not acceptable, or an exception leaves it.
\<close>

datatype loop_end =
    Completed "(string \<times> string) set"
  | Returned
  | Raised exn

fun add_cameras ::
  "env \<Rightarrow> config_entry \<Rightarrow> pydict option list \<Rightarrow> (string \<times> string) set \<Rightarrow> state \<Rightarrow> loop_end \<times> state" where
  "add_cameras c entry [] inbound_camera s = (Completed inbound_camera, s)"
| "add_cameras c entry (camera # rest) inbound_camera s =
     (if \<not> is_acceptable_camera c camera then (Returned, s)
      else (case camera of
              None \<Rightarrow> (Raised TypeError, s)
            | Some cam \<Rightarrow>
                (case dict_item cam (KEY_ID c) of
                   Inl e \<Rightarrow> (Raised e, s)
                 | Inr camera_id \<Rightarrow>
                     (let device_identifier =
                            get_motioneye_device_identifier c (entry_id entry) camera_id;
                          inbound_camera' = insert device_identifier inbound_camera
                      in if device_identifier \<in> current_cameras s
                         then add_cameras c entry rest inbound_camera' s
                         else (case add_camera c entry camera_id cam device_identifier
                                      (s \<lparr> current_cameras :=
                                             insert device_identifier (current_cameras s) \<rparr>) of
                                 (Some e, s') \<Rightarrow> (Raised e, s')
                               | (None, s') \<Rightarrow> add_cameras c entry rest inbound_camera' s')))))"

text \<open>
  The second loop: over the devices of the config entry as listed before the loop, a
  device none of whose identifiers is in \<^verbatim>\<open>inbound_camera\<close> is removed.
\<close>

definition remove_stale :: "config_entry \<Rightarrow> (string \<times> string) set \<Rightarrow> state \<Rightarrow> state" where
  "remove_stale entry inbound_camera s =
     s \<lparr> devices :=
           fold (\<lambda>device_entry devs.
                   if \<exists>identifier \<in> identifiers device_entry. identifier \<in> inbound_camera then devs
                   else async_remove_device (id' device_entry) devs)
             (async_entries_for_config_entry (devices s) (entry_id entry)) (devices s) \<rparr>"

text \<open>
  \<^verbatim>\<open>_async_process_motioneye_cameras\<close>, on the coordinator's data: \<^verbatim>\<open>None\<close> or a
  dict, whose value under \<^verbatim>\<open>KEY_CAMERAS\<close> is a list of cameras. The result is the
  exception that left the function, if any, and the state.
\<close>

definition async_process_motioneye_cameras ::
  "env \<Rightarrow> config_entry \<Rightarrow> (string \<times> pydict option list) list option \<Rightarrow> state \<Rightarrow> exn option \<times> state" where
  "async_process_motioneye_cameras c entry coordinator_data s =
     (case coordinator_data of
        None \<Rightarrow> (None, s)
      | Some d \<Rightarrow>
          (case map_of d (KEY_CAMERAS c) of
             None \<Rightarrow> (None, s)
           | Some cameras \<Rightarrow>
               (case add_cameras c entry cameras {} s of
                  (Returned, s') \<Rightarrow> (None, s')
                | (Raised e, s') \<Rightarrow> (Some e, s')
                | (Completed inbound_camera, s') \<Rightarrow> (None, remove_stale entry inbound_camera s'))))"


text \<open>
  For stating what a poll does: the six web hook fields of a camera dict; the device
  identifier of a camera dict; the identifiers of the cameras of a polled list; whether
  the registry holds a device with a given identifier linked to the config entry; and
  whether a device is stale, that is linked to the config entry with no identifier among
  the given ones.
\<close>

definition webhook_keys :: "env \<Rightarrow> string list" where
  "webhook_keys c =
     [KEY_WEB_HOOK_NOTIFICATIONS_URL c, KEY_WEB_HOOK_NOTIFICATIONS_HTTP_METHOD c,
      KEY_WEB_HOOK_NOTIFICATIONS_ENABLED c, KEY_WEB_HOOK_STORAGE_URL c,
      KEY_WEB_HOOK_STORAGE_HTTP_METHOD c, KEY_WEB_HOOK_STORAGE_ENABLED c]"

definition identifier_of :: "env \<Rightarrow> config_entry \<Rightarrow> pydict \<Rightarrow> string \<times> string" where
  "identifier_of c entry camera =
     get_motioneye_device_identifier c (entry_id entry) (dict_get camera (KEY_ID c))"

definition polled_identifiers :: "env \<Rightarrow> config_entry \<Rightarrow> pydict option list \<Rightarrow> (string \<times> string) set" where
  "polled_identifiers c entry cameras =
     set (map (identifier_of c entry) [camera. Some camera \<leftarrow> cameras])"

definition has_device :: "config_entry \<Rightarrow> (string \<times> string) \<Rightarrow> device_entry list \<Rightarrow> bool" where
  "has_device entry identifier devs =
     (\<exists>d \<in> set devs. identifier \<in> identifiers d \<and> entry_id entry \<in> config_entries d)"

definition stale :: "config_entry \<Rightarrow> (string \<times> string) set \<Rightarrow> device_entry \<Rightarrow> bool" where
  "stale entry inbound dev =
     (entry_id entry \<in> config_entries dev \<and> \<not> (\<exists>i \<in> identifiers dev. i \<in> inbound))"


section \<open>The webhook receiver\<close>

text \<open>
  What \<^verbatim>\<open>await request.json()\<close> gives: one of the two exceptions the handler
  catches, or the decoded value, which may be any JSON value.
\<close>

datatype request_json = JSONDecodeError | UnicodeDecodeError | Decoded pyval

record response =
  response_text :: string
  response_status :: nat

definition BAD_REQUEST :: nat where
  "BAD_REQUEST = 400"

text \<open>
  \<^verbatim>\<open>v[k]\<close> and \<^verbatim>\<open>**v\<close> for a string key \<open>k\<close> and any value \<open>v\<close>: only a dict can
  be indexed by a string or unpacked.
\<close>

fun py_getitem :: "pyval \<Rightarrow> string \<Rightarrow> exn + pyval" where
  "py_getitem (PDict kvs) k = dict_item kvs k"
| "py_getitem v k = Inl TypeError"

fun py_items :: "pyval \<Rightarrow> exn + pydict" where
  "py_items (PDict kvs) = Inr kvs"
| "py_items v = Inl TypeError"

text \<open>
  The loop over \<^verbatim>\<open>(ATTR_DEVICE_ID, ATTR_EVENT_TYPE)\<close>: the first key that is not
  \<^verbatim>\<open>in data\<close>, if any.
\<close>

fun missing_parameter :: "string list \<Rightarrow> pyval \<Rightarrow> exn + string option" where
  "missing_parameter [] d = Inr None"
| "missing_parameter (key # keys) d =
     (case py_in key d of
        Inl e \<Rightarrow> Inl e
      | Inr False \<Rightarrow> Inr (Some key)
      | Inr True \<Rightarrow> missing_parameter keys d)"

text \<open>
  The dict literal of the event: the three synthesized fields first, then the items of
  the payload, each assigned in turn.
\<close>

definition event_data :: "env \<Rightarrow> device_entry \<Rightarrow> string \<Rightarrow> pydict \<Rightarrow> pydict" where
  "event_data c device webhook_id payload =
     fold (\<lambda>(k, v). AList.update k v) payload
       (AList.update (ATTR_WEBHOOK_ID c) (PStr webhook_id)
         (AList.update (ATTR_NAME c) (name device)
           (AList.update (ATTR_DEVICE_ID c) (PStr (id' device)) [])))"

text \<open>
  \<^verbatim>\<open>handle_webhook\<close>: the result is the exception that left the handler, or the
  response it returned (\<^verbatim>\<open>None\<close> after firing the event), and the state.
\<close>

definition handle_webhook ::
  "env \<Rightarrow> string \<Rightarrow> request_json \<Rightarrow> state \<Rightarrow> (exn + response option) \<times> state" where
  "handle_webhook c webhook_id request s =
     (case request of
        JSONDecodeError \<Rightarrow>
          (Inr (Some \<lparr> response_text = ''Could not decode request'',
                       response_status = BAD_REQUEST \<rparr>), s)
      | UnicodeDecodeError \<Rightarrow>
          (Inr (Some \<lparr> response_text = ''Could not decode request'',
                       response_status = BAD_REQUEST \<rparr>), s)
      | Decoded d \<Rightarrow>
     (case missing_parameter [ATTR_DEVICE_ID c, ATTR_EVENT_TYPE c] d of
        Inl e \<Rightarrow> (Inl e, s)
      | Inr (Some key) \<Rightarrow>
          (Inr (Some \<lparr> response_text = ''Missing webhook parameter: '' @ key,
                       response_status = BAD_REQUEST \<rparr>), s)
      | Inr None \<Rightarrow>
     (case py_getitem d (ATTR_EVENT_TYPE c) of
        Inl e \<Rightarrow> (Inl e, s)
      | Inr event_type \<Rightarrow>
     (case py_getitem d (ATTR_DEVICE_ID c) of
        Inl e \<Rightarrow> (Inl e, s)
      | Inr device_id \<Rightarrow>
     (case async_get (devices s) device_id of
        Inl e \<Rightarrow> (Inl e, s)
      | Inr None \<Rightarrow>
          (Inr (Some \<lparr> response_text = ''Device not found: '' @ py_str c device_id,
                       response_status = BAD_REQUEST \<rparr>), s)
      | Inr (Some device) \<Rightarrow>
     (case py_items d of
        Inl e \<Rightarrow> (Inl e, s)
      | Inr payload \<Rightarrow>
          (Inr None,
           s \<lparr> bus := bus s @ [(DOMAIN c @ ''.'' @ py_str c event_type,
                                 event_data c device webhook_id payload)] \<rparr>)))))))"




section \<open>Setting up and unloading a config entry\<close>

text \<open>
  Modelled from the spec: \<^verbatim>\<open>async_register\<close> of the hub's webhook component
  (\<^verbatim>\<open>homeassistant.components.webhook\<close>), missing from the sources. In the spec's
  words a webhook is "an inbound HTTP callback registered with the host framework": the
  handler is stored under the webhook id. An id that is taken is refused with
  \<^verbatim>\<open>ValueError\<close>; the handlers are kept in a dict, so an id that is a list or a dict
  raises \<^verbatim>\<open>TypeError\<close>.
\<close>

definition webhook_register ::
  "string \<Rightarrow> string \<Rightarrow> pyval \<Rightarrow> handler \<Rightarrow> (pyval \<times> webhook) list \<Rightarrow> exn + (pyval \<times> webhook) list" where
  "webhook_register domain nm webhook_id h hooks =
     (if \<not> hashable webhook_id then Inl TypeError
      else if map_of hooks webhook_id \<noteq> None then Inl ValueError
      else Inr (hooks @ [(webhook_id,
                  \<lparr> webhook_domain = domain, webhook_name = nm, webhook_handler = h \<rparr>)]))"

text \<open>
  Modelled from the spec: \<^verbatim>\<open>async_unregister\<close> of the hub's webhook component,
  missing from the sources: the handler stored under the webhook id, if any, is
  forgotten.
\<close>

definition webhook_unregister :: "pyval \<Rightarrow> (pyval \<times> webhook) list \<Rightarrow> exn + (pyval \<times> webhook) list" where
  "webhook_unregister webhook_id hooks =
     (if \<not> hashable webhook_id then Inl TypeError
      else Inr (AList.delete webhook_id hooks))"

text \<open>\<^verbatim>\<open>create_motioneye_client\<close> with the arguments \<^verbatim>\<open>async_setup_entry\<close> passes.\<close>

definition create_motioneye_client :: "env \<Rightarrow> pyval \<Rightarrow> config_entry \<Rightarrow> client" where
  "create_motioneye_client c url entry =
     \<lparr> client_url = url,
       admin_username = dict_get (data entry) (CONF_ADMIN_USERNAME c),
       admin_password = dict_get (data entry) (CONF_ADMIN_PASSWORD c),
       surveillance_username = dict_get (data entry) (CONF_SURVEILLANCE_USERNAME c),
       surveillance_password = dict_get (data entry) (CONF_SURVEILLANCE_PASSWORD c) \<rparr>"

text \<open>
  The \<^verbatim>\<open>try\<close> around \<^verbatim>\<open>async_client_login\<close>. \<open>login\<close> is the exception the login
  raised, if any; \<open>MotionEyeClientError\<close> stands for every client error other than the
  invalid-auth one. The result is the exception to raise, if any, and the state.
\<close>

definition client_login :: "exn option \<Rightarrow> state \<Rightarrow> exn option \<times> state" where
  "client_login login s =
     (let s1 = s \<lparr> client_calls := client_calls s @ [Async_client_login] \<rparr>
      in case login of
           None \<Rightarrow> (None, s1)
         | Some e \<Rightarrow>
             if e = MotionEyeClientInvalidAuthError
             then (Some ConfigEntryAuthFailed,
                   s1 \<lparr> client_calls := client_calls s1 @ [Async_client_close] \<rparr>)
             else if e = MotionEyeClientError
             then (Some ConfigEntryNotReady,
                   s1 \<lparr> client_calls := client_calls s1 @ [Async_client_close] \<rparr>)
             else (Some e, s1))"

text \<open>
  \<^verbatim>\<open>Ensure every loaded entry has a registered webhook id\<close>: a missing id is
  generated and stored in the entry's data.
\<close>

definition ensure_webhook_id :: "env \<Rightarrow> config_entry \<Rightarrow> state \<Rightarrow> config_entry \<times> state" where
  "ensure_webhook_id c entry s =
     (if has_key (data entry) (CONF_WEBHOOK_ID c) then (entry, s)
      else (entry \<lparr> data := AList.update (CONF_WEBHOOK_ID c) (PStr (token_hex c (counter s)))
                              (data entry) \<rparr>,
            s \<lparr> counter := Suc (counter s) \<rparr>))"

text \<open>
  \<^verbatim>\<open>async_setup_entry\<close>: the result is the exception raised or the value returned, the
  config entry (whose data the function may update) and the state.
\<close>

definition async_setup_entry ::
  "env \<Rightarrow> exn option \<Rightarrow> config_entry \<Rightarrow> state \<Rightarrow> (exn + bool) \<times> config_entry \<times> state" where
  "async_setup_entry c login entry s =
     (let s0 = s \<lparr> hass_data := Some (case hass_data s of None \<Rightarrow> [] | Some d \<Rightarrow> d) \<rparr>
      in case dict_item (data entry) (CONF_URL c) of
           Inl e \<Rightarrow> (Inl e, entry, s0)
         | Inr url \<Rightarrow>
     (let cl = create_motioneye_client c url entry
      in case client_login login s0 of
           (Some e, s1) \<Rightarrow> (Inl e, entry, s1)
         | (None, s1) \<Rightarrow>
     (let (entry1, s2) = ensure_webhook_id c entry s1
      in case dict_item (data entry1) (CONF_WEBHOOK_ID c) of
           Inl e \<Rightarrow> (Inl e, entry1, s2)
         | Inr webhook_id \<Rightarrow>
     (case webhook_register (DOMAIN c) ''motionEye'' webhook_id Handle_webhook (webhooks s2) of
        Inl e \<Rightarrow> (Inl e, entry1, s2)
      | Inr hooks \<Rightarrow>
     (case hass_data s2 of
        None \<Rightarrow> (Inl KeyError, entry1, s2 \<lparr> webhooks := hooks \<rparr>)
      | Some d \<Rightarrow>
          (Inr True, entry1,
           s2 \<lparr> webhooks := hooks,
                hass_data := Some (AList.update (entry_id entry1)
                                     \<lparr> conf_client = cl,
                                       conf_coordinator = \<lparr> coordinator_name = DOMAIN c \<rparr> \<rparr> d),
                current_cameras := {},
                tasks := tasks s2 @ [Setup_then_listen (entry_id entry1)] \<rparr>))))))"

text \<open>
  \<^verbatim>\<open>async_unload_entry\<close>; \<open>unload_ok\<close> is what the hub's
  \<^verbatim>\<open>async_unload_platforms\<close> returns.
\<close>

definition async_unload_entry ::
  "env \<Rightarrow> bool \<Rightarrow> config_entry \<Rightarrow> state \<Rightarrow> (exn + bool) \<times> state" where
  "async_unload_entry c unload_ok entry s =
     (case dict_item (data entry) (CONF_WEBHOOK_ID c) of
        Inl e \<Rightarrow> (Inl e, s)
      | Inr webhook_id \<Rightarrow>
     (case webhook_unregister webhook_id (webhooks s) of
        Inl e \<Rightarrow> (Inl e, s)
      | Inr hooks \<Rightarrow>
     (let s1 = s \<lparr> webhooks := hooks \<rparr>
      in if unload_ok
         then (case hass_data s1 of
                 None \<Rightarrow> (Inl KeyError, s1)
               | Some d \<Rightarrow>
                   (case map_of d (entry_id entry) of
                      None \<Rightarrow> (Inl KeyError, s1)
                    | Some config_data \<Rightarrow>
                        (Inr True,
                         s1 \<lparr> hass_data := Some (AList.delete (entry_id entry) d),
                              client_calls := client_calls s1 @ [Async_client_close] \<rparr>)))
         else (Inr False, s1))))"


text \<open>The state of the config entry under \<^verbatim>\<open>hass.data[DOMAIN]\<close>, if any.\<close>

definition entry_data_of :: "state \<Rightarrow> string \<Rightarrow> config_data option" where
  "entry_data_of s eid = (case hass_data s of None \<Rightarrow> None | Some d \<Rightarrow> map_of d eid)"


section \<open>Sample values\<close>

text \<open>
  Sample values of the constants, for evaluating the model on concrete inputs. The
  sample \<open>sample_str\<close> of \<^verbatim>\<open>str()\<close> is Python's on \<^verbatim>\<open>None\<close>, booleans, integers and
  strings; the sample \<open>sample_urljoin\<close> appends the reference to the base.
\<close>

fun digits :: "nat \<Rightarrow> nat \<Rightarrow> string" where
  "digits 0 n = []"
| "digits (Suc fuel) n =
     (if n < 10 then [''0123456789'' ! n]
      else digits fuel (n div 10) @ [''0123456789'' ! (n mod 10)])"

definition str_int :: "int \<Rightarrow> string" where
  "str_int i = (if i < 0 then ''-'' @ digits (Suc (nat (- i))) (nat (- i))
                else digits (Suc (nat i)) (nat i))"

fun sample_str :: "pyval \<Rightarrow> string" where
  "sample_str PNone = ''None''"
| "sample_str (PBool b) = (if b then ''True'' else ''False'')"
| "sample_str (PInt i) = str_int i"
| "sample_str (PStr s) = s"
| "sample_str (PList xs) = ''[...]''"
| "sample_str (PDict kvs) = ''{...}''"

definition sample_urljoin :: "string \<Rightarrow> string \<Rightarrow> string" where
  "sample_urljoin base ref = base @ ref"

definition sample_env :: env where
  "sample_env = \<lparr>
     DOMAIN = ''motioneye'',
     KEY_CAMERAS = ''cameras'',
     KEY_ID = ''id'',
     KEY_NAME = ''name'',
     KEY_HTTP_METHOD_POST_JSON = ''POST (application/json)'',
     KEY_WEB_HOOK_CONVERSION_SPECIFIERS =
       [(''camera_id'', ''%t''), (''event'', ''%v''), (''file_path'', ''%f''),
        (''file_type'', ''%n''), (''frame_number'', ''%q'')],
     KEY_WEB_HOOK_NOTIFICATIONS_ENABLED = ''web_hook_notifications_enabled'',
     KEY_WEB_HOOK_NOTIFICATIONS_HTTP_METHOD = ''web_hook_notifications_http_method'',
     KEY_WEB_HOOK_NOTIFICATIONS_URL = ''web_hook_notifications_url'',
     KEY_WEB_HOOK_STORAGE_ENABLED = ''web_hook_storage_enabled'',
     KEY_WEB_HOOK_STORAGE_HTTP_METHOD = ''web_hook_storage_http_method'',
     KEY_WEB_HOOK_STORAGE_URL = ''web_hook_storage_url'',
     ATTR_DEVICE_ID = ''device_id'',
     ATTR_NAME = ''name'',
     ATTR_EVENT_TYPE = ''event_type'',
     ATTR_WEBHOOK_ID = ''webhook_id'',
     CONF_URL = ''url'',
     CONF_WEBHOOK_ID = ''webhook_id'',
     CONF_ADMIN_PASSWORD = ''admin_password'',
     CONF_ADMIN_USERNAME = ''admin_username'',
     CONF_SURVEILLANCE_PASSWORD = ''surveillance_password'',
     CONF_SURVEILLANCE_USERNAME = ''surveillance_username'',
     CONF_WEBHOOK_SET = ''webhook_set'',
     CONF_WEBHOOK_SET_OVERWRITE = ''webhook_set_overwrite'',
     DEFAULT_WEBHOOK_SET = True,
     DEFAULT_WEBHOOK_SET_OVERWRITE = False,
     EVENT_FILE_STORED = ''file_stored'',
     EVENT_FILE_STORED_KEYS = [''camera_id'', ''file_path'', ''file_type''],
     EVENT_MOTION_DETECTED = ''motion_detected'',
     EVENT_MOTION_DETECTED_KEYS = [''frame_number'', ''camera_id'', ''event''],
     MOTIONEYE_MANUFACTURER = ''motionEye'',
     SIGNAL_CAMERA_ADD = (\<lambda>entry_id. ''motioneye_camera_add_'' @ entry_id),
     WEB_HOOK_SENTINEL_KEY = ''src'',
     WEB_HOOK_SENTINEL_VALUE = ''hass-motioneye'',
     py_str = sample_str,
     urljoin = sample_urljoin,
     async_generate_path = (\<lambda>webhook_id. ''/api/webhook/'' @ sample_str webhook_id),
     uuid_hex = (\<lambda>n. ''dev'' @ str_int (int n)),
     token_hex = (\<lambda>n. ''tok'' @ str_int (int n))
   \<rparr>"

definition sample_entry :: config_entry where
  "sample_entry = \<lparr> entry_id = ''e1'', data = [(''url'', PStr ''http://cam''), (''webhook_id'', PStr ''wh1'')],
                     options = [] \<rparr>"

definition sample_state :: state where
  "sample_state = \<lparr> devices = [], get_url = Some ''http://hass:8123'', webhooks = [],
                     hass_data = None, dispatched = [], bus = [], tasks = [], client_calls = [],
                     current_cameras = {}, counter = 0 \<rparr>"

definition sample_device :: device_entry where
  "sample_device = \<lparr> id' = ''dev0'', name = PStr ''porch'',
                      identifiers = {(''motioneye'', ''e1_1'')}, config_entries = {''e1''},
                      manufacturer = ''motionEye'', model = ''motionEye'' \<rparr>"


definition sample_payload_forged :: pydict where
  "sample_payload_forged = [(''device_id'', PStr ''dev0''), (''event_type'', PStr ''motion_detected''),
                     (''name'', PStr ''forged''), (''webhook_id'', PStr ''forged-id'')]"

definition sample_state_registered :: state where
  "sample_state_registered = sample_state \<lparr> devices := [sample_device] \<rparr>"

definition sample_entry_new :: config_entry where
  "sample_entry_new = \<lparr> entry_id = ''e2'', data = [(''url'', PStr ''http://cam2'')], options = [] \<rparr>"

definition sample_entry_plain :: config_entry where
  "sample_entry_plain = sample_entry \<lparr> options := [(''webhook_set'', PBool False)] \<rparr>"

definition sample_porch :: pydict where
  "sample_porch = [(''id'', PInt 1), (''name'', PStr ''porch'')]"

definition sample_yard :: pydict where
  "sample_yard = [(''id'', PInt 2), (''name'', PStr ''yard'')]"

definition sample_nameless :: pydict where
  "sample_nameless = [(''id'', PInt 3)]"

definition sample_state_porch :: state where
  "sample_state_porch =
     sample_state \<lparr> devices := [sample_device], current_cameras := {(''motioneye'', ''e1_1'')},
                    counter := 1 \<rparr>"

definition sample_gate :: pydict where
  "sample_gate = [(''id'', PInt 4), (''name'', PStr ''gate'')]"

definition sample_yard_device :: device_entry where
  "sample_yard_device = \<lparr> id' = ''dev1'', name = PStr ''yard'',
                      identifiers = {(''motioneye'', ''e1_2'')}, config_entries = {''e1''},
                      manufacturer = ''motionEye'', model = ''motionEye'' \<rparr>"

definition sample_state_yard_added :: state where
  "sample_state_yard_added =
     sample_state_porch \<lparr>
        current_cameras := {(''motioneye'', ''e1_2''), (''motioneye'', ''e1_1'')},
        devices := [sample_device, sample_yard_device],
        counter := 2,
        dispatched := [(''motioneye_camera_add_e1'', sample_yard)] \<rparr>"



section \<open>Properties of the web hook setter\<close>

lemma dict_get_update:
  "dict_get (AList.update k v d) k' = (if k' = k then v else dict_get d k')"
  by (simp add: dict_get_def dict_get_default_def update_conv')



lemma sample_fields [simp]:
  "DOMAIN sample_env = ''motioneye''"
  "KEY_CAMERAS sample_env = ''cameras''"
  "KEY_ID sample_env = ''id''"
  "KEY_NAME sample_env = ''name''"
  "KEY_HTTP_METHOD_POST_JSON sample_env = ''POST (application/json)''"
  "KEY_WEB_HOOK_CONVERSION_SPECIFIERS sample_env =
     [(''camera_id'', ''%t''), (''event'', ''%v''), (''file_path'', ''%f''),
      (''file_type'', ''%n''), (''frame_number'', ''%q'')]"
  "KEY_WEB_HOOK_NOTIFICATIONS_ENABLED sample_env = ''web_hook_notifications_enabled''"
  "KEY_WEB_HOOK_NOTIFICATIONS_HTTP_METHOD sample_env = ''web_hook_notifications_http_method''"
  "KEY_WEB_HOOK_NOTIFICATIONS_URL sample_env = ''web_hook_notifications_url''"
  "KEY_WEB_HOOK_STORAGE_ENABLED sample_env = ''web_hook_storage_enabled''"
  "KEY_WEB_HOOK_STORAGE_HTTP_METHOD sample_env = ''web_hook_storage_http_method''"
  "KEY_WEB_HOOK_STORAGE_URL sample_env = ''web_hook_storage_url''"
  "ATTR_DEVICE_ID sample_env = ''device_id''"
  "ATTR_NAME sample_env = ''name''"
  "ATTR_EVENT_TYPE sample_env = ''event_type''"
  "ATTR_WEBHOOK_ID sample_env = ''webhook_id''"
  "CONF_URL sample_env = ''url''"
  "CONF_WEBHOOK_ID sample_env = ''webhook_id''"
  "CONF_ADMIN_PASSWORD sample_env = ''admin_password''"
  "CONF_ADMIN_USERNAME sample_env = ''admin_username''"
  "CONF_SURVEILLANCE_PASSWORD sample_env = ''surveillance_password''"
  "CONF_SURVEILLANCE_USERNAME sample_env = ''surveillance_username''"
  "CONF_WEBHOOK_SET sample_env = ''webhook_set''"
  "CONF_WEBHOOK_SET_OVERWRITE sample_env = ''webhook_set_overwrite''"
  "DEFAULT_WEBHOOK_SET sample_env = True"
  "DEFAULT_WEBHOOK_SET_OVERWRITE sample_env = False"
  "EVENT_FILE_STORED sample_env = ''file_stored''"
  "EVENT_FILE_STORED_KEYS sample_env = [''camera_id'', ''file_path'', ''file_type'']"
  "EVENT_MOTION_DETECTED sample_env = ''motion_detected''"
  "EVENT_MOTION_DETECTED_KEYS sample_env = [''frame_number'', ''camera_id'', ''event'']"
  "MOTIONEYE_MANUFACTURER sample_env = ''motionEye''"
  "SIGNAL_CAMERA_ADD sample_env = (\<lambda>entry_id. ''motioneye_camera_add_'' @ entry_id)"
  "WEB_HOOK_SENTINEL_KEY sample_env = ''src''"
  "WEB_HOOK_SENTINEL_VALUE sample_env = ''hass-motioneye''"
  "py_str sample_env = sample_str"
  "urljoin sample_env = sample_urljoin"
  "async_generate_path sample_env = (\<lambda>webhook_id. ''/api/webhook/'' @ sample_str webhook_id)"
  "uuid_hex sample_env = (\<lambda>n. ''dev'' @ str_int (int n))"
  "token_hex sample_env = (\<lambda>n. ''tok'' @ str_int (int n))"
  by (simp_all add: sample_env_def)












section \<open>Properties of the URL builder\<close>























section \<open>Properties of the webhook receiver\<close>

lemma map_of_fold_update:
  "distinct (map fst kvs) \<Longrightarrow>
     map_of (fold (\<lambda>(k, v). AList.update k v) kvs base) k =
       (case map_of kvs k of Some v \<Rightarrow> Some v | None \<Rightarrow> map_of base k)"
proof (induction kvs arbitrary: base)
  case Nil
  then show ?case by simp
next
  case (Cons kv kvs)
  obtain a b where kv: "kv = (a, b)" by (cases kv)
  from Cons.prems kv have "map_of kvs a = None"
    by (simp add: map_of_eq_None_iff)
  with Cons kv show ?case
    by (auto simp: update_conv' split: option.splits)
qed

lemma missing_parameter_dict:
  "missing_parameter [k1, k2] (PDict kvs) =
     Inr (if \<not> has_key kvs k1 then Some k1 else if \<not> has_key kvs k2 then Some k2 else None)"
  by simp

lemma dict_item_has_key:
  "has_key kvs k \<Longrightarrow> dict_item kvs k = Inr (dict_get kvs k)"
  by (auto simp: has_key_def dict_item_def dict_get_def dict_get_default_def)

lemma event_data_payload:
  "distinct (map fst kvs) \<Longrightarrow> map_of kvs k = Some v \<Longrightarrow>
     map_of (event_data c device webhook_id kvs) k = Some v"
  by (simp add: event_data_def map_of_fold_update)

lemma event_data_webhook_id:
  "distinct (map fst kvs) \<Longrightarrow> map_of kvs (ATTR_WEBHOOK_ID c) = None \<Longrightarrow>
     map_of (event_data c device webhook_id kvs) (ATTR_WEBHOOK_ID c) = Some (PStr webhook_id)"
  by (simp add: event_data_def map_of_fold_update update_conv')

lemma event_data_name:
  "distinct (map fst kvs) \<Longrightarrow> map_of kvs (ATTR_NAME c) = None \<Longrightarrow>
     ATTR_NAME c \<noteq> ATTR_WEBHOOK_ID c \<Longrightarrow>
     map_of (event_data c device webhook_id kvs) (ATTR_NAME c) = Some (name device)"
  by (simp add: event_data_def map_of_fold_update update_conv')


lemma handle_webhook_fired:
  assumes "handle_webhook c webhook_id (Decoded (PDict kvs)) s = (Inr None, s')"
  shows "\<exists>device. async_get (devices s) (dict_get kvs (ATTR_DEVICE_ID c)) = Inr (Some device)
           \<and> s' = s \<lparr> bus := bus s @
                    [(DOMAIN c @ ''.'' @ py_str c (dict_get kvs (ATTR_EVENT_TYPE c)),
                      event_data c device webhook_id kvs)] \<rparr>"
proof -
  from assms have keys: "has_key kvs (ATTR_DEVICE_ID c)" "has_key kvs (ATTR_EVENT_TYPE c)"
    by (auto simp: handle_webhook_def missing_parameter_dict simp del: missing_parameter.simps
          split: if_splits)
  with assms show ?thesis
    by (auto simp: handle_webhook_def missing_parameter_dict dict_item_has_key
          simp del: missing_parameter.simps split: sum.splits option.splits)
qed





text \<open>
  C10. In the event that \<^verbatim>\<open>handle_webhook\<close> fires, the payload is merged last: a
  \<^verbatim>\<open>name\<close> or \<^verbatim>\<open>webhook_id\<close> key of the payload gives the event its value for
  that key, and the device's registered name and the real webhook id appear only when
  the payload has no such key.
\<close>

theorem handle_webhook_payload_wins:
  assumes "ATTR_NAME c = ''name''" and "ATTR_WEBHOOK_ID c = ''webhook_id''"
    and "distinct (map fst kvs)"
    and "handle_webhook c webhook_id (Decoded (PDict kvs)) s = (Inr None, s')"
  shows "\<exists>device event_name ev.
           async_get (devices s) (dict_get kvs (ATTR_DEVICE_ID c)) = Inr (Some device)
           \<and> bus s' = bus s @ [(event_name, ev)]
           \<and> (\<forall>v. map_of kvs ''name'' = Some v \<longrightarrow> map_of ev ''name'' = Some v)
           \<and> (\<forall>v. map_of kvs ''webhook_id'' = Some v \<longrightarrow> map_of ev ''webhook_id'' = Some v)
           \<and> (map_of kvs ''name'' = None \<longrightarrow> map_of ev ''name'' = Some (name device))
           \<and> (map_of kvs ''webhook_id'' = None
                 \<longrightarrow> map_of ev ''webhook_id'' = Some (PStr webhook_id))"
proof -
  from handle_webhook_fired [OF assms(4)] obtain device where
    dev: "async_get (devices s) (dict_get kvs (ATTR_DEVICE_ID c)) = Inr (Some device)"
    and s': "s' = s \<lparr> bus := bus s @
                    [(DOMAIN c @ ''.'' @ py_str c (dict_get kvs (ATTR_EVENT_TYPE c)),
                      event_data c device webhook_id kvs)] \<rparr>"
    by blast
  let ?ev = "event_data c device webhook_id kvs"
  have "\<forall>v. map_of kvs ''name'' = Some v \<longrightarrow> map_of ?ev ''name'' = Some v"
    "\<forall>v. map_of kvs ''webhook_id'' = Some v \<longrightarrow> map_of ?ev ''webhook_id'' = Some v"
    using assms(3) by (simp_all add: event_data_payload)
  moreover have "map_of kvs ''name'' = None \<longrightarrow> map_of ?ev ''name'' = Some (name device)"
    using event_data_name [OF assms(3), of c device webhook_id] assms(1,2) by simp
  moreover have "map_of kvs ''webhook_id'' = None
                   \<longrightarrow> map_of ?ev ''webhook_id'' = Some (PStr webhook_id)"
    using event_data_webhook_id [OF assms(3), of c device webhook_id] assms(2) by simp
  ultimately show ?thesis
    using dev s' by (intro exI [of _ device] exI [of _ ?ev]
        exI [of _ "DOMAIN c @ ''.'' @ py_str c (dict_get kvs (ATTR_EVENT_TYPE c))"]) simp
qed

text \<open>The theorem at a payload that forges both keys.\<close>

theorem handle_webhook_payload_wins_witness:
  "bus (snd (handle_webhook sample_env ''wh1'' (Decoded (PDict sample_payload_forged))
               sample_state_registered))
   = [(''motioneye.motion_detected'',
       [(''device_id'', PStr ''dev0''), (''name'', PStr ''forged''),
        (''webhook_id'', PStr ''forged-id''), (''event_type'', PStr ''motion_detected'')])]"
proof -
  have run: "handle_webhook sample_env ''wh1'' (Decoded (PDict sample_payload_forged))
               sample_state_registered
      = (Inr None, sample_state_registered \<lparr> bus :=
           [(''motioneye.motion_detected'',
             [(''device_id'', PStr ''dev0''), (''name'', PStr ''forged''),
              (''webhook_id'', PStr ''forged-id''), (''event_type'', PStr ''motion_detected'')])] \<rparr>)"
    by (simp add: handle_webhook_def sample_payload_forged_def has_key_def dict_item_def
          async_get_def event_data_def sample_state_registered_def sample_state_def
          sample_device_def)
  have d: "distinct (map fst sample_payload_forged)"
    by (simp add: sample_payload_forged_def)
  from handle_webhook_payload_wins [OF _ _ d run]
  obtain event_name ev where
    "bus (sample_state_registered \<lparr> bus :=
           [(''motioneye.motion_detected'',
             [(''device_id'', PStr ''dev0''), (''name'', PStr ''forged''),
              (''webhook_id'', PStr ''forged-id''), (''event_type'', PStr ''motion_detected'')])] \<rparr>)
       = bus sample_state_registered @ [(event_name, ev)]"
    and "map_of ev ''name'' = Some (PStr ''forged'')"
    by (auto simp: sample_payload_forged_def)
  with run show ?thesis by simp
qed



section \<open>Properties of setting up and unloading\<close>

lemma client_login_failed:
  "e = MotionEyeClientInvalidAuthError \<or> e = MotionEyeClientError \<Longrightarrow>
     client_login (Some e) s =
       (Some (if e = MotionEyeClientInvalidAuthError then ConfigEntryAuthFailed
              else ConfigEntryNotReady),
        s \<lparr> client_calls := client_calls s @ [Async_client_login, Async_client_close] \<rparr>)"
  by (auto simp: client_login_def Let_def)

lemma setup_returns_True:
  assumes "async_setup_entry c login entry s = (Inr True, entry', s')"
  shows "\<exists>wid. dict_item (data entry') (CONF_WEBHOOK_ID c) = Inr wid
           \<and> entry' = fst (ensure_webhook_id c entry s)
           \<and> webhook_register (DOMAIN c) ''motionEye'' wid Handle_webhook (webhooks s)
                = Inr (webhooks s')"
  using assms
  by (auto simp: async_setup_entry_def Let_def client_login_def ensure_webhook_id_def
        split: sum.splits option.splits prod.splits if_splits)


lemma webhook_register_ok:
  assumes "webhook_register domain nm wid h hooks = Inr hooks'"
  shows "hashable wid"
    and "map_of hooks' wid
           = Some \<lparr> webhook_domain = domain, webhook_name = nm, webhook_handler = h \<rparr>"
  using assms
  by (auto simp: webhook_register_def map_of_append map_add_def split: if_splits option.splits)

lemma unload_unregisters:
  assumes "hashable wid" and "dict_item (data entry) (CONF_WEBHOOK_ID c) = Inr wid"
  shows "webhooks (snd (async_unload_entry c unload_ok entry t)) = AList.delete wid (webhooks t)"
  using assms
  by (simp add: async_unload_entry_def webhook_unregister_def Let_def split: option.splits)

text \<open>
  C7. When the entry's data has a URL, so that the login is attempted, and the login
  raises the invalid-auth error or another client error, \<^verbatim>\<open>async_setup_entry\<close> raises
  \<^verbatim>\<open>ConfigEntryAuthFailed\<close> for the former and \<^verbatim>\<open>ConfigEntryNotReady\<close> for the
  latter, in both cases after \<^verbatim>\<open>async_client_close\<close> was called (the last call on the
  client, right after the login). The entry is unchanged, nothing is stored for it under
  \<^verbatim>\<open>hass.data[DOMAIN]\<close>, no task is created and no webhook registered.
\<close>

theorem setup_login_failure:
  assumes "has_key (data entry) (CONF_URL c)"
    and "e = MotionEyeClientInvalidAuthError \<or> e = MotionEyeClientError"
  shows "\<exists>s'. async_setup_entry c (Some e) entry s =
             (Inl (if e = MotionEyeClientInvalidAuthError then ConfigEntryAuthFailed
                   else ConfigEntryNotReady), entry, s')
           \<and> client_calls s' = client_calls s @ [Async_client_login, Async_client_close]
           \<and> entry_data_of s' (entry_id entry) = entry_data_of s (entry_id entry)
           \<and> tasks s' = tasks s \<and> webhooks s' = webhooks s
           \<and> current_cameras s' = current_cameras s \<and> devices s' = devices s"
proof -
  from assms(1) obtain url where url: "dict_item (data entry) (CONF_URL c) = Inr url"
    by (auto simp: has_key_def dict_item_def)
  let ?s0 = "s \<lparr> hass_data := Some (case hass_data s of None \<Rightarrow> [] | Some d \<Rightarrow> d) \<rparr>"
  let ?s' = "?s0 \<lparr> client_calls := client_calls ?s0 @ [Async_client_login, Async_client_close] \<rparr>"
  have "async_setup_entry c (Some e) entry s =
          (Inl (if e = MotionEyeClientInvalidAuthError then ConfigEntryAuthFailed
                else ConfigEntryNotReady), entry, ?s')"
    by (simp add: async_setup_entry_def url client_login_failed [OF assms(2)] Let_def)
  moreover have "entry_data_of ?s' (entry_id entry) = entry_data_of s (entry_id entry)"
    by (simp add: entry_data_of_def split: option.splits)
  ultimately show ?thesis by simp
qed

text \<open>The theorem at a login that fails with the invalid-auth error.\<close>

theorem setup_login_failure_witness:
  "async_setup_entry sample_env (Some MotionEyeClientInvalidAuthError) sample_entry sample_state
     = (Inl ConfigEntryAuthFailed, sample_entry,
        sample_state \<lparr> hass_data := Some [],
                       client_calls := [Async_client_login, Async_client_close] \<rparr>)"
proof -
  have k: "has_key (data sample_entry) (CONF_URL sample_env)"
    by (simp add: sample_entry_def has_key_def)
  from setup_login_failure [OF k, of MotionEyeClientInvalidAuthError sample_state]
  obtain s' where
    "async_setup_entry sample_env (Some MotionEyeClientInvalidAuthError) sample_entry sample_state
       = (Inl ConfigEntryAuthFailed, sample_entry, s')"
    by auto
  moreover have "snd (snd (async_setup_entry sample_env (Some MotionEyeClientInvalidAuthError)
                             sample_entry sample_state))
      = sample_state \<lparr> hass_data := Some [],
                       client_calls := [Async_client_login, Async_client_close] \<rparr>"
    by (simp add: async_setup_entry_def client_login_def sample_entry_def dict_item_def
          sample_state_def Let_def)
  ultimately show ?thesis by simp
qed

text \<open>
  C8. Whenever \<^verbatim>\<open>async_setup_entry\<close> returns \<^verbatim>\<open>True\<close>, the entry's data holds a
  webhook id: the one it had, with the entry unchanged, or else a freshly generated one,
  stored in the entry's data. \<^verbatim>\<open>handle_webhook\<close> is registered under that id, and
  \<^verbatim>\<open>async_unload_entry\<close> on the entry, from any state, unregisters exactly that id.
\<close>

theorem setup_registers_webhook:
  assumes "async_setup_entry c login entry s = (Inr True, entry', s')"
  shows "\<exists>wid. map_of (data entry') (CONF_WEBHOOK_ID c) = Some wid
           \<and> (if has_key (data entry) (CONF_WEBHOOK_ID c) then entry' = entry
               else wid = PStr (token_hex c (counter s))
                    \<and> entry' = entry \<lparr> data := AList.update (CONF_WEBHOOK_ID c) wid (data entry) \<rparr>)
           \<and> map_of (webhooks s') wid
                = Some \<lparr> webhook_domain = DOMAIN c, webhook_name = ''motionEye'',
                         webhook_handler = Handle_webhook \<rparr>
           \<and> (\<forall>unload_ok t.
                 webhooks (snd (async_unload_entry c unload_ok entry' t))
                   = AList.delete wid (webhooks t)
                 \<and> map_of (webhooks (snd (async_unload_entry c unload_ok entry' t))) wid = None)"
proof -
  from setup_returns_True [OF assms] obtain wid where
    wid: "dict_item (data entry') (CONF_WEBHOOK_ID c) = Inr wid"
    and entry': "entry' = fst (ensure_webhook_id c entry s)"
    and reg: "webhook_register (DOMAIN c) ''motionEye'' wid Handle_webhook (webhooks s)
                = Inr (webhooks s')"
    by blast
  from wid have stored: "map_of (data entry') (CONF_WEBHOOK_ID c) = Some wid"
    by (auto simp: dict_item_def split: option.splits)
  have fresh: "if has_key (data entry) (CONF_WEBHOOK_ID c) then entry' = entry
               else wid = PStr (token_hex c (counter s))
                    \<and> entry' = entry \<lparr> data := AList.update (CONF_WEBHOOK_ID c) wid (data entry) \<rparr>"
    using stored entry' by (auto simp: ensure_webhook_id_def update_conv')
  note registered = webhook_register_ok [OF reg]
  have "webhooks (snd (async_unload_entry c unload_ok entry' t)) = AList.delete wid (webhooks t)"
    for unload_ok t
    using registered(1) wid by (rule unload_unregisters)
  then show ?thesis
    using stored fresh registered(2) by (auto simp: delete_conv')
qed

text \<open>
  The theorem at an entry without a webhook id: the id \<^verbatim>\<open>tok0\<close> is generated, stored
  and registered, and unloading leaves no webhook registered.
\<close>

theorem setup_registers_webhook_witness:
  "async_setup_entry sample_env None sample_entry_new sample_state
     = (Inr True,
        sample_entry_new \<lparr> data := [(''url'', PStr ''http://cam2''), (''webhook_id'', PStr ''tok0'')] \<rparr>,
        sample_state \<lparr>
          webhooks := [(PStr ''tok0'', \<lparr> webhook_domain = ''motioneye'', webhook_name = ''motionEye'',
                                         webhook_handler = Handle_webhook \<rparr>)],
          hass_data := Some [(''e2'', \<lparr> conf_client = \<lparr> client_url = PStr ''http://cam2'',
                                          admin_username = PNone, admin_password = PNone,
                                          surveillance_username = PNone,
                                          surveillance_password = PNone \<rparr>,
                                        conf_coordinator = \<lparr> coordinator_name = ''motioneye'' \<rparr> \<rparr>)],
          tasks := [Setup_then_listen ''e2''],
          client_calls := [Async_client_login],
          counter := 1 \<rparr>)
   \<and> webhooks (snd (async_unload_entry sample_env True
         (sample_entry_new \<lparr> data := [(''url'', PStr ''http://cam2''), (''webhook_id'', PStr ''tok0'')] \<rparr>)
         (sample_state \<lparr>
          webhooks := [(PStr ''tok0'', \<lparr> webhook_domain = ''motioneye'', webhook_name = ''motionEye'',
                                         webhook_handler = Handle_webhook \<rparr>)],
          hass_data := Some [(''e2'', \<lparr> conf_client = \<lparr> client_url = PStr ''http://cam2'',
                                          admin_username = PNone, admin_password = PNone,
                                          surveillance_username = PNone,
                                          surveillance_password = PNone \<rparr>,
                                        conf_coordinator = \<lparr> coordinator_name = ''motioneye'' \<rparr> \<rparr>)],
          tasks := [Setup_then_listen ''e2''],
          client_calls := [Async_client_login],
          counter := 1 \<rparr>))) = []"
proof -
  have run: "async_setup_entry sample_env None sample_entry_new sample_state
     = (Inr True,
        sample_entry_new \<lparr> data := [(''url'', PStr ''http://cam2''), (''webhook_id'', PStr ''tok0'')] \<rparr>,
        sample_state \<lparr>
          webhooks := [(PStr ''tok0'', \<lparr> webhook_domain = ''motioneye'', webhook_name = ''motionEye'',
                                         webhook_handler = Handle_webhook \<rparr>)],
          hass_data := Some [(''e2'', \<lparr> conf_client = \<lparr> client_url = PStr ''http://cam2'',
                                          admin_username = PNone, admin_password = PNone,
                                          surveillance_username = PNone,
                                          surveillance_password = PNone \<rparr>,
                                        conf_coordinator = \<lparr> coordinator_name = ''motioneye'' \<rparr> \<rparr>)],
          tasks := [Setup_then_listen ''e2''],
          client_calls := [Async_client_login],
          counter := 1 \<rparr>)"
    by (simp add: async_setup_entry_def client_login_def ensure_webhook_id_def
          webhook_register_def create_motioneye_client_def sample_entry_new_def sample_state_def
          dict_item_def dict_get_def dict_get_default_def has_key_def str_int_def Let_def)
  from setup_registers_webhook [OF run] show ?thesis
    unfolding run
    by (auto simp: sample_entry_new_def has_key_def str_int_def sample_state_def)
qed



section \<open>Properties of processing a poll\<close>

subsection \<open>The device registry and the web hook fields\<close>

lemma replace_first_map:
  "find P xs = Some d \<Longrightarrow> f d' = f d \<Longrightarrow> map f (replace_first P d' xs) = map f xs"
  by (induction xs) (auto split: if_splits)

lemma replace_first_set:
  "find P xs = Some d \<Longrightarrow> set (replace_first P d' xs) \<subseteq> insert d' (set xs)
     \<and> d' \<in> set (replace_first P d' xs)
     \<and> (\<forall>x \<in> set xs. x \<noteq> d \<longrightarrow> x \<in> set (replace_first P d' xs))"
  by (induction xs) (auto split: if_splits)

lemma get_or_create_ids:
  "async_get_or_create new_id eid ident manuf mdl nm devs = (d, devs') \<Longrightarrow>
     \<exists>new. map id' devs' = map id' devs @ new"
  by (auto simp: async_get_or_create_def Let_def replace_first_map split: option.splits)

lemma get_or_create_has_device:
  assumes "async_get_or_create new_id (entry_id entry) ident manuf mdl nm devs = (d, devs')"
  shows "has_device entry ident devs'"
    and "has_device entry i devs \<Longrightarrow> has_device entry i devs'"
proof -
  show "has_device entry ident devs'"
  proof (cases "find (\<lambda>d. ident \<in> identifiers d) devs")
    case None
    with assms show ?thesis
      by (auto simp: async_get_or_create_def Let_def has_device_def)
  next
    case (Some d0)
    then have d0: "ident \<in> identifiers d0" by (auto simp: find_Some_iff)
    let ?d' = "d0 \<lparr> name := nm, config_entries := insert (entry_id entry) (config_entries d0),
                     manufacturer := manuf, model := mdl \<rparr>"
    from assms Some have devs': "devs' = replace_first (\<lambda>x. ident \<in> identifiers x) ?d' devs"
      by (auto simp: async_get_or_create_def Let_def)
    have "?d' \<in> set devs'"
      using replace_first_set [OF Some, of ?d'] unfolding devs' by simp
    moreover have "ident \<in> identifiers ?d'" "entry_id entry \<in> config_entries ?d'"
      using d0 by simp_all
    ultimately show ?thesis unfolding has_device_def by blast
  qed
  show "has_device entry i devs'" if "has_device entry i devs"
  proof (cases "find (\<lambda>d. ident \<in> identifiers d) devs")
    case None
    with assms that show ?thesis
      by (auto simp: async_get_or_create_def Let_def has_device_def)
  next
    case (Some d0)
    from that obtain x where x: "x \<in> set devs" "i \<in> identifiers x" "entry_id entry \<in> config_entries x"
      by (auto simp: has_device_def)
    let ?d' = "d0 \<lparr> name := nm, config_entries := insert (entry_id entry) (config_entries d0),
                     manufacturer := manuf, model := mdl \<rparr>"
    from assms Some have devs': "devs' = replace_first (\<lambda>x. ident \<in> identifiers x) ?d' devs"
      by (auto simp: async_get_or_create_def Let_def)
    show ?thesis
    proof (cases "x = d0")
      case True
      with x replace_first_set [OF Some, of ?d'] show ?thesis
        unfolding devs' has_device_def by (intro bexI [of _ ?d']) auto
    next
      case False
      with x replace_first_set [OF Some, of ?d'] show ?thesis
        unfolding devs' has_device_def by (intro bexI [of _ x]) auto
    qed
  qed
qed

lemma set_webhook_other_key:
  "set_webhook c entry url ku km ke camera = Inr (b, camera') \<Longrightarrow>
     k \<noteq> ku \<Longrightarrow> k \<noteq> km \<Longrightarrow> k \<noteq> ke \<Longrightarrow> dict_get camera' k = dict_get camera k"
  by (auto simp: set_webhook_def assign_webhook_def dict_get_update split: sum.splits if_splits)

lemma set_webhooks_other_key:
  assumes "set_webhooks c entry device url camera = Inr (b, camera')"
    and "k \<notin> set (webhook_keys c)"
  shows "dict_get camera' k = dict_get camera k"
proof -
  from assms(1) obtain u1 b1 cam1 u2 b2 where
    1: "set_webhook c entry u1 (KEY_WEB_HOOK_NOTIFICATIONS_URL c)
             (KEY_WEB_HOOK_NOTIFICATIONS_HTTP_METHOD c) (KEY_WEB_HOOK_NOTIFICATIONS_ENABLED c) camera
          = Inr (b1, cam1)"
    and 2: "set_webhook c entry u2 (KEY_WEB_HOOK_STORAGE_URL c)
             (KEY_WEB_HOOK_STORAGE_HTTP_METHOD c) (KEY_WEB_HOOK_STORAGE_ENABLED c) cam1
          = Inr (b2, camera')"
    by (auto simp: set_webhooks_def split: sum.splits prod.splits)
  from assms(2) set_webhook_other_key [OF 1, of k] set_webhook_other_key [OF 2, of k]
  show ?thesis by (simp add: webhook_keys_def)
qed

lemma configure_webhooks_effect:
  assumes "configure_webhooks c entry device camera_id camera s = Inr (camera', s')"
  shows "\<exists>ts. s' = s \<lparr> tasks := tasks s @ ts \<rparr>"
    and "k \<notin> set (webhook_keys c) \<Longrightarrow> dict_get camera' k = dict_get camera k"
proof -
  have same: "\<exists>ts. s = s \<lparr> tasks := tasks s @ ts \<rparr>"
    by (rule exI [of _ "[]"]) simp
  from assms same show "\<exists>ts. s' = s \<lparr> tasks := tasks s @ ts \<rparr>"
    by (auto simp: configure_webhooks_def split: if_splits sum.splits option.splits)
  show "dict_get camera' k = dict_get camera k" if "k \<notin> set (webhook_keys c)"
    using assms set_webhooks_other_key [OF _ that]
    by (auto simp: configure_webhooks_def split: if_splits sum.splits option.splits)
qed

lemma add_camera_state:
  assumes "add_camera c entry camera_id camera ident s = (r, s')"
  shows "current_cameras s' = current_cameras s"
    and "\<exists>new. map id' (devices s') = map id' (devices s) @ new"
    and "has_device entry i (devices s) \<Longrightarrow> has_device entry i (devices s')"
    and "r \<noteq> None \<Longrightarrow> dispatched s' = dispatched s"
proof -
  show "current_cameras s' = current_cameras s"
    using assms
    by (auto simp: add_camera_def Let_def split: sum.splits prod.splits
          dest!: configure_webhooks_effect(1))
  show "\<exists>new. map id' (devices s') = map id' (devices s) @ new"
    using assms
    by (auto simp: add_camera_def Let_def split: sum.splits prod.splits
          dest!: configure_webhooks_effect(1) get_or_create_ids)
  show "has_device entry i (devices s')" if "has_device entry i (devices s)"
    using assms that
    by (auto simp: add_camera_def Let_def split: sum.splits prod.splits
          dest!: configure_webhooks_effect(1) dest: get_or_create_has_device(2))
  show "dispatched s' = dispatched s" if "r \<noteq> None"
    using assms that
    by (auto simp: add_camera_def Let_def split: sum.splits prod.splits
          dest!: configure_webhooks_effect(1))
qed

lemma add_camera_done:
  assumes "add_camera c entry camera_id camera ident s = (None, s')"
  shows "has_device entry ident (devices s')"
    and "\<exists>camera'. dispatched s' = dispatched s @ [(SIGNAL_CAMERA_ADD c (entry_id entry), camera')]
           \<and> (\<forall>k. k \<notin> set (webhook_keys c) \<longrightarrow> dict_get camera' k = dict_get camera k)"
proof -
  from assms obtain nm device devs camera' s2 where
    goc: "async_get_or_create (uuid_hex c (counter s)) (entry_id entry) ident
            (MOTIONEYE_MANUFACTURER c) (MOTIONEYE_MANUFACTURER c) nm (devices s) = (device, devs)"
    and cw: "configure_webhooks c entry device camera_id camera
               (s \<lparr> devices := devs, counter := Suc (counter s) \<rparr>) = Inr (camera', s2)"
    and s': "s' = s2 \<lparr> dispatched := dispatched s2 @ [(SIGNAL_CAMERA_ADD c (entry_id entry), camera')] \<rparr>"
    by (auto simp: add_camera_def Let_def split: sum.splits prod.splits)
  from configure_webhooks_effect(1) [OF cw] obtain ts where
    s2: "s2 = s \<lparr> devices := devs, counter := Suc (counter s), tasks := tasks s @ ts \<rparr>"
    by auto
  show "has_device entry ident (devices s')"
    using get_or_create_has_device(1) [OF goc] by (simp add: s' s2)
  show "\<exists>camera'. dispatched s' = dispatched s @ [(SIGNAL_CAMERA_ADD c (entry_id entry), camera')]
           \<and> (\<forall>k. k \<notin> set (webhook_keys c) \<longrightarrow> dict_get camera' k = dict_get camera k)"
    using configure_webhooks_effect(2) [OF cw] by (intro exI [of _ camera']) (simp add: s' s2)
qed




subsection \<open>The loop over the polled cameras\<close>

lemma acceptable_camera:
  assumes "is_acceptable_camera c camera"
  obtains cam where "camera = Some cam" and "dict_item cam (KEY_ID c) = Inr (dict_get cam (KEY_ID c))"
  using assms
  by (cases camera) (auto simp: is_acceptable_camera_def dict_item_has_key)

lemma add_cameras_step:
  assumes "is_acceptable_camera c (Some cam)"
  shows "add_cameras c entry (Some cam # rest) inb s =
     (if identifier_of c entry cam \<in> current_cameras s
      then add_cameras c entry rest (insert (identifier_of c entry cam) inb) s
      else (case add_camera c entry (dict_get cam (KEY_ID c)) cam (identifier_of c entry cam)
                   (s \<lparr> current_cameras := insert (identifier_of c entry cam) (current_cameras s) \<rparr>) of
              (Some e, s') \<Rightarrow> (Raised e, s')
            | (None, s') \<Rightarrow> add_cameras c entry rest (insert (identifier_of c entry cam) inb) s'))"
proof -
  from assms have "dict_item cam (KEY_ID c) = Inr (dict_get cam (KEY_ID c))"
    by (auto elim: acceptable_camera)
  with assms show ?thesis
    by (auto simp: identifier_of_def Let_def split: prod.splits option.splits)
qed

lemma add_cameras_unacceptable:
  "\<not> is_acceptable_camera c camera \<Longrightarrow> add_cameras c entry (camera # rest) inb s = (Returned, s)"
  by simp

declare add_cameras.simps(2) [simp del]

lemma polled_identifiers_Cons:
  "polled_identifiers c entry (Some cam # rest)
     = insert (identifier_of c entry cam) (polled_identifiers c entry rest)"
  by (simp add: polled_identifiers_def)

lemma add_cameras_state:
  "add_cameras c entry cams inb s = (r, s') \<Longrightarrow>
     (\<exists>new. map id' (devices s') = map id' (devices s) @ new)
     \<and> (has_device entry i (devices s) \<longrightarrow> has_device entry i (devices s'))"
proof (induction cams arbitrary: inb s)
  case Nil
  then show ?case by simp
next
  case (Cons camera rest)
  show ?case
  proof (cases "is_acceptable_camera c camera")
    case False
    with Cons.prems show ?thesis by (simp add: add_cameras_unacceptable)
  next
    case True
    then obtain cam where cam: "camera = Some cam" by (auto elim: acceptable_camera)
    let ?i = "identifier_of c entry cam"
    note step = add_cameras_step [OF True [unfolded cam], of entry rest inb s]
    show ?thesis
    proof (cases "?i \<in> current_cameras s")
      case True
      with Cons.prems step cam have "add_cameras c entry rest (insert ?i inb) s = (r, s')"
        by simp
      from Cons.IH [OF this] show ?thesis .
    next
      case False
      obtain r1 s1 where ac: "add_camera c entry (dict_get cam (KEY_ID c)) cam ?i
                   (s \<lparr> current_cameras := insert ?i (current_cameras s) \<rparr>) = (r1, s1)"
        by (cases "add_camera c entry (dict_get cam (KEY_ID c)) cam ?i
                   (s \<lparr> current_cameras := insert ?i (current_cameras s) \<rparr>)")
      from add_camera_state(2) [OF ac] add_camera_state(3) [OF ac, of i]
      have s1: "\<exists>new. map id' (devices s1) = map id' (devices s) @ new"
        "has_device entry i (devices s) \<longrightarrow> has_device entry i (devices s1)"
        by simp_all
      show ?thesis
      proof (cases r1)
        case (Some e)
        with Cons.prems step cam False ac have "s' = s1" by simp
        with s1 show ?thesis by simp
      next
        case None
        with Cons.prems step cam False ac
        have "add_cameras c entry rest (insert ?i inb) s1 = (r, s')" by simp
        from Cons.IH [OF this] s1 show ?thesis by auto
      qed
    qed
  qed
qed

lemma add_cameras_completed:
  assumes "KEY_ID c \<notin> set (webhook_keys c)"
  shows "add_cameras c entry cams inb s = (Completed inb', s') \<Longrightarrow>
     inb' = inb \<union> polled_identifiers c entry cams
     \<and> current_cameras s' = current_cameras s \<union> polled_identifiers c entry cams
     \<and> (\<exists>new. dispatched s' = dispatched s @ new
            \<and> (\<forall>e \<in> set new. fst e = SIGNAL_CAMERA_ADD c (entry_id entry))
            \<and> distinct (map (identifier_of c entry \<circ> snd) new)
            \<and> set (map (identifier_of c entry \<circ> snd) new)
                 = polled_identifiers c entry cams - current_cameras s)
     \<and> (\<forall>i \<in> polled_identifiers c entry cams - current_cameras s. has_device entry i (devices s'))"
proof (induction cams arbitrary: inb s)
  case Nil
  then show ?case by (simp add: polled_identifiers_def)
next
  case (Cons camera rest)
  have acc: "is_acceptable_camera c camera"
    using Cons.prems by (cases "is_acceptable_camera c camera") (simp_all add: add_cameras_unacceptable)
  then obtain cam where cam: "camera = Some cam" by (auto elim: acceptable_camera)
  let ?i = "identifier_of c entry cam"
  let ?P = "polled_identifiers c entry rest"
  note step = add_cameras_step [OF acc [unfolded cam], of entry rest inb s]
  note polled = polled_identifiers_Cons [of c entry cam rest]
  show ?case
  proof (cases "?i \<in> current_cameras s")
    case True
    with Cons.prems step cam
    have "add_cameras c entry rest (insert ?i inb) s = (Completed inb', s')" by simp
    from Cons.IH [OF this] obtain new where
      inb': "inb' = insert ?i inb \<union> ?P"
      and cur': "current_cameras s' = current_cameras s \<union> ?P"
      and new: "dispatched s' = dispatched s @ new"
        "\<forall>e \<in> set new. fst e = SIGNAL_CAMERA_ADD c (entry_id entry)"
        "distinct (map (identifier_of c entry \<circ> snd) new)"
        "set (map (identifier_of c entry \<circ> snd) new) = ?P - current_cameras s"
      and devs: "\<forall>i \<in> ?P - current_cameras s. has_device entry i (devices s')"
      by blast
    have same: "insert ?i ?P - current_cameras s = ?P - current_cameras s"
      using True by blast
    have A: "inb' = inb \<union> insert ?i ?P"
      using inb' by blast
    have B: "current_cameras s' = current_cameras s \<union> insert ?i ?P"
      using cur' True by blast
    show ?thesis
      unfolding cam polled same using A B new devs by blast
  next
    case False
    obtain r1 s1 where ac: "add_camera c entry (dict_get cam (KEY_ID c)) cam ?i
                 (s \<lparr> current_cameras := insert ?i (current_cameras s) \<rparr>) = (r1, s1)"
      by (cases "add_camera c entry (dict_get cam (KEY_ID c)) cam ?i
                 (s \<lparr> current_cameras := insert ?i (current_cameras s) \<rparr>)")
    have r1: "r1 = None"
      using Cons.prems step cam False ac by (cases r1) simp_all
    with Cons.prems step cam False ac
    have rest: "add_cameras c entry rest (insert ?i inb) s1 = (Completed inb', s')" by simp
    from add_camera_state(1) [OF ac]
    have cur1: "current_cameras s1 = insert ?i (current_cameras s)" by simp
    from add_camera_done(2) [OF ac [unfolded r1]] assms obtain camera' where
      disp1: "dispatched s1 = dispatched s @ [(SIGNAL_CAMERA_ADD c (entry_id entry), camera')]"
      and "dict_get camera' (KEY_ID c) = dict_get cam (KEY_ID c)"
      by auto
    then have id1: "identifier_of c entry camera' = ?i"
      by (simp add: identifier_of_def)
    from add_camera_done(1) [OF ac [unfolded r1]]
    have dev1: "has_device entry ?i (devices s1)" by simp
    from add_cameras_state [OF rest, of ?i] dev1
    have dev': "has_device entry ?i (devices s')" by simp
    from Cons.IH [OF rest] obtain new where
      inb': "inb' = insert ?i inb \<union> ?P"
      and cur': "current_cameras s' = current_cameras s1 \<union> ?P"
      and new: "dispatched s' = dispatched s1 @ new"
        "\<forall>e \<in> set new. fst e = SIGNAL_CAMERA_ADD c (entry_id entry)"
        "distinct (map (identifier_of c entry \<circ> snd) new)"
        "set (map (identifier_of c entry \<circ> snd) new) = ?P - current_cameras s1"
      and devs: "\<forall>i \<in> ?P - current_cameras s1. has_device entry i (devices s')"
      by blast
    let ?new = "(SIGNAL_CAMERA_ADD c (entry_id entry), camera') # new"
    have n1: "dispatched s' = dispatched s @ ?new"
      using new(1) disp1 by simp
    have n2: "\<forall>e \<in> set ?new. fst e = SIGNAL_CAMERA_ADD c (entry_id entry)"
      using new(2) by simp
    have "?i \<notin> set (map (identifier_of c entry \<circ> snd) new)"
      unfolding new(4) cur1 by simp
    then have n3: "distinct (map (identifier_of c entry \<circ> snd) ?new)"
      using new(3) id1 by simp
    have n4: "set (map (identifier_of c entry \<circ> snd) ?new)
                     = insert ?i ?P - current_cameras s"
    proof -
      have "set (map (identifier_of c entry \<circ> snd) ?new)
              = insert ?i (?P - insert ?i (current_cameras s))"
        unfolding list.map list.set new(4) cur1 using id1 by simp
      also have "\<dots> = insert ?i ?P - current_cameras s"
        using False by blast
      finally show ?thesis .
    qed
    have C: "\<exists>new. dispatched s' = dispatched s @ new
            \<and> (\<forall>e \<in> set new. fst e = SIGNAL_CAMERA_ADD c (entry_id entry))
            \<and> distinct (map (identifier_of c entry \<circ> snd) new)
            \<and> set (map (identifier_of c entry \<circ> snd) new) = insert ?i ?P - current_cameras s"
      using n1 n2 n3 n4 by (intro exI [of _ ?new] conjI)
    have D: "\<forall>i \<in> insert ?i ?P - current_cameras s. has_device entry i (devices s')"
      using devs [unfolded cur1] dev' by blast
    have A: "inb' = inb \<union> insert ?i ?P"
      using inb' by blast
    have B: "current_cameras s' = current_cameras s \<union> insert ?i ?P"
      using cur' cur1 by blast
    show ?thesis
      unfolding cam polled using A B C D by blast
  qed
qed

lemma add_cameras_no_return:
  "\<forall>camera \<in> set cams. is_acceptable_camera c camera \<Longrightarrow>
     fst (add_cameras c entry cams inb s) \<noteq> Returned"
proof (induction cams arbitrary: inb s)
  case Nil
  then show ?case by simp
next
  case (Cons camera rest)
  then obtain cam where cam: "camera = Some cam" by (auto elim: acceptable_camera)
  from Cons.prems cam have acc: "is_acceptable_camera c (Some cam)" by simp
  from Cons.prems have rest: "\<forall>camera \<in> set rest. is_acceptable_camera c camera" by simp
  show ?case
    unfolding cam add_cameras_step [OF acc]
    using Cons.IH [OF rest] by (auto split: prod.splits option.splits)
qed

lemma add_cameras_prefix:
  assumes "\<forall>camera \<in> set pre. is_acceptable_camera c camera"
    and "\<not> is_acceptable_camera c bad"
  shows "add_cameras c entry (pre @ bad # post) inb s =
     (case add_cameras c entry pre inb s of
        (Completed inbound, s') \<Rightarrow> (Returned, s')
      | (r, s') \<Rightarrow> (r, s'))"
  using assms(1)
proof (induction pre arbitrary: inb s)
  case Nil
  with assms(2) show ?case by (simp add: add_cameras_unacceptable)
next
  case (Cons camera rest)
  then obtain cam where cam: "camera = Some cam" by (auto elim: acceptable_camera)
  from Cons.prems cam have acc: "is_acceptable_camera c (Some cam)" by simp
  from Cons.prems have rest: "\<forall>camera \<in> set rest. is_acceptable_camera c camera" by simp
  show ?case
    unfolding cam append_Cons add_cameras_step [OF acc]
    using Cons.IH [OF rest] by (auto split: prod.splits option.splits)
qed

lemma add_cameras_inbound:
  "add_cameras c entry cams inb s = (Completed inb', s') \<Longrightarrow>
     inb' = inb \<union> polled_identifiers c entry cams"
proof (induction cams arbitrary: inb s)
  case Nil
  then show ?case by (simp add: polled_identifiers_def)
next
  case (Cons camera rest)
  have acc: "is_acceptable_camera c camera"
    using Cons.prems by (cases "is_acceptable_camera c camera") (simp_all add: add_cameras_unacceptable)
  then obtain cam where cam: "camera = Some cam" by (auto elim: acceptable_camera)
  let ?i = "identifier_of c entry cam"
  note step = add_cameras_step [OF acc [unfolded cam], of entry rest inb s]
  have "\<exists>s1. add_cameras c entry rest (insert ?i inb) s1 = (Completed inb', s')"
    using Cons.prems unfolding cam step
    by (auto split: if_splits prod.splits option.splits)
  then obtain s1 where "add_cameras c entry rest (insert ?i inb) s1 = (Completed inb', s')" ..
  from Cons.IH [OF this] show ?case
    unfolding cam polled_identifiers_Cons by blast
qed

lemma fold_remove:
  "fold (\<lambda>dev devs. if keep dev then devs else async_remove_device (id' dev) devs) es devs
     = filter (\<lambda>x. \<forall>dev \<in> set es. \<not> keep dev \<longrightarrow> id' x \<noteq> id' dev) devs"
proof (induction es arbitrary: devs)
  case Nil
  then show ?case by simp
next
  case (Cons e es)
  show ?case
    by (auto simp: Cons.IH async_remove_device_def intro!: filter_cong)
qed

lemma remove_stale_devices:
  "devices (remove_stale entry inbound s)
     = filter (\<lambda>x. \<forall>dev \<in> set (devices s). stale entry inbound dev \<longrightarrow> id' x \<noteq> id' dev)
         (devices s)"
  unfolding remove_stale_def
  by (simp add: fold_remove async_entries_for_config_entry_def stale_def) (auto intro!: filter_cong)

lemma remove_stale_other:
  "current_cameras (remove_stale entry inbound s) = current_cameras s"
  "dispatched (remove_stale entry inbound s) = dispatched s"
  by (simp_all add: remove_stale_def)

lemma process_completed:
  assumes "map_of d (KEY_CAMERAS c) = Some cams"
    and "\<forall>camera \<in> set cams. is_acceptable_camera c camera"
    and "async_process_motioneye_cameras c entry (Some d) s = (None, s')"
  obtains s1 where
    "add_cameras c entry cams {} s = (Completed (polled_identifiers c entry cams), s1)"
    and "s' = remove_stale entry (polled_identifiers c entry cams) s1"
proof -
  obtain r s1 where run: "add_cameras c entry cams {} s = (r, s1)"
    by (cases "add_cameras c entry cams {} s")
  from add_cameras_no_return [OF assms(2), of entry "{}" s] run have "r \<noteq> Returned" by simp
  with assms(1,3) run obtain inb where r: "r = Completed inb" and s': "s' = remove_stale entry inb s1"
    by (cases r) (simp_all add: async_process_motioneye_cameras_def)
  from add_cameras_inbound [OF run [unfolded r]] have "inb = polled_identifiers c entry cams"
    by simp
  with run r s' that show ?thesis by simp
qed


subsection \<open>Sample polls\<close>

lemma str_int_digit:
  "0 \<le> i \<Longrightarrow> i < 10 \<Longrightarrow> str_int i = [''0123456789'' ! nat i]"
  by (simp add: str_int_def)

lemma sample_identifiers [simp]:
  "identifier_of sample_env sample_entry_plain sample_porch = (''motioneye'', ''e1_1'')"
  "identifier_of sample_env sample_entry_plain sample_yard = (''motioneye'', ''e1_2'')"
  by (simp_all add: identifier_of_def get_motioneye_device_identifier_def sample_entry_plain_def
        sample_entry_def sample_porch_def sample_yard_def dict_get_def dict_get_default_def
        str_int_digit)

lemma sample_acceptable [simp]:
  "is_acceptable_camera sample_env (Some sample_porch)"
  "is_acceptable_camera sample_env (Some sample_yard)"
  "\<not> is_acceptable_camera sample_env (Some sample_nameless)"
  by (simp_all add: is_acceptable_camera_def has_key_def sample_porch_def sample_yard_def
        sample_nameless_def)

lemma sample_add_yard:
  "add_camera sample_env sample_entry_plain (PInt 2) sample_yard (''motioneye'', ''e1_2'')
     (sample_state_porch \<lparr> current_cameras := {(''motioneye'', ''e1_2''), (''motioneye'', ''e1_1'')} \<rparr>)
   = (None, sample_state_yard_added)"
  by (simp add: sample_state_yard_added_def add_camera_def configure_webhooks_def async_get_or_create_def dict_item_def
        dict_get_default_def sample_entry_plain_def sample_entry_def sample_state_porch_def
        sample_state_def sample_device_def sample_yard_device_def sample_yard_def str_int_digit
        Let_def)


lemma sample_current [simp]:
  "current_cameras sample_state_porch = {(''motioneye'', ''e1_1'')}"
  "entry_id sample_entry_plain = ''e1''"
  "dict_get sample_yard ''id'' = PInt 2"
  "dict_get sample_porch ''id'' = PInt 1"
  by (simp_all add: sample_state_porch_def sample_state_def sample_entry_plain_def sample_entry_def
        sample_yard_def sample_porch_def dict_get_def dict_get_default_def)

lemma sample_add_loop:
  "add_cameras sample_env sample_entry_plain [Some sample_yard] {} sample_state_porch
     = (Completed {(''motioneye'', ''e1_2'')}, sample_state_yard_added)"
  "add_cameras sample_env sample_entry_plain [Some sample_porch, Some sample_yard] {} sample_state_porch
     = (Completed {(''motioneye'', ''e1_2''), (''motioneye'', ''e1_1'')}, sample_state_yard_added)"
  by (simp_all add: add_cameras_step sample_add_yard)

lemma sample_remove_stale:
  "remove_stale sample_entry_plain {(''motioneye'', ''e1_2''), (''motioneye'', ''e1_1'')}
     sample_state_yard_added = sample_state_yard_added"
  "remove_stale sample_entry_plain {(''motioneye'', ''e1_2'')} sample_state_yard_added
     = sample_state_yard_added \<lparr> devices := [sample_yard_device] \<rparr>"
  by (simp_all add: remove_stale_def async_entries_for_config_entry_def async_remove_device_def
        sample_state_yard_added_def sample_state_porch_def sample_state_def sample_device_def
        sample_yard_device_def sample_entry_plain_def sample_entry_def)

lemma sample_run_both:
  "async_process_motioneye_cameras sample_env sample_entry_plain
     (Some [(''cameras'', [Some sample_porch, Some sample_yard])]) sample_state_porch
   = (None, sample_state_yard_added)"
  by (simp add: async_process_motioneye_cameras_def sample_add_loop sample_remove_stale)

lemma sample_run_yard:
  "async_process_motioneye_cameras sample_env sample_entry_plain
     (Some [(''cameras'', [Some sample_yard])]) sample_state_porch
   = (None, sample_state_yard_added \<lparr> devices := [sample_yard_device] \<rparr>)"
  by (simp add: async_process_motioneye_cameras_def sample_add_loop sample_remove_stale)

lemma sample_run_cut:
  "async_process_motioneye_cameras sample_env sample_entry_plain
     (Some [(''cameras'', [Some sample_yard, Some sample_nameless])]) sample_state_porch
     = (None, sample_state_yard_added)"
  by (simp add: async_process_motioneye_cameras_def add_cameras_step add_cameras_unacceptable
        sample_add_yard)


subsection \<open>What a poll does\<close>

text \<open>
  C9. When the coordinator's data is \<^verbatim>\<open>None\<close> or has no \<^verbatim>\<open>KEY_CAMERAS\<close> key,
  \<^verbatim>\<open>_async_process_motioneye_cameras\<close> returns with the state unchanged. When the
  polled list has a camera that is not acceptable, the function returns at the first
  such camera: what it did is what the first loop does on the cameras before it, so no
  later camera is added, whatever follows in the list; and no device is removed, the
  ids of the registry before the poll all being still there, in their order.
\<close>

theorem early_return:
  assumes "map_of d (KEY_CAMERAS c) = Some (pre @ bad # post)"
    and "\<forall>camera \<in> set pre. is_acceptable_camera c camera"
    and "\<not> is_acceptable_camera c bad"
  shows "async_process_motioneye_cameras c entry None s = (None, s)
         \<and> (\<forall>d0. map_of d0 (KEY_CAMERAS c) = None
               \<longrightarrow> async_process_motioneye_cameras c entry (Some d0) s = (None, s))
         \<and> async_process_motioneye_cameras c entry (Some d) s =
              (case add_cameras c entry pre {} s of
                 (Raised e, s1) \<Rightarrow> (Some e, s1)
               | (r, s1) \<Rightarrow> (None, s1))
         \<and> (\<exists>new. map id' (devices (snd (async_process_motioneye_cameras c entry (Some d) s)))
                     = map id' (devices s) @ new)"
proof -
  have none: "async_process_motioneye_cameras c entry None s = (None, s)"
    by (simp add: async_process_motioneye_cameras_def)
  have nokey: "async_process_motioneye_cameras c entry (Some d0) s = (None, s)"
    if "map_of d0 (KEY_CAMERAS c) = None" for d0
    using that by (simp add: async_process_motioneye_cameras_def)
  obtain r s1 where pre: "add_cameras c entry pre {} s = (r, s1)"
    by (cases "add_cameras c entry pre {} s")
  from add_cameras_no_return [OF assms(2), of entry "{}" s] pre have notret: "r \<noteq> Returned"
    by simp
  have cut: "async_process_motioneye_cameras c entry (Some d) s =
              (case add_cameras c entry pre {} s of
                 (Raised e, s1) \<Rightarrow> (Some e, s1)
               | (r, s1) \<Rightarrow> (None, s1))"
    using assms(1) notret
    by (cases r) (simp_all add: async_process_motioneye_cameras_def
          add_cameras_prefix [OF assms(2,3)] pre)
  have "snd (async_process_motioneye_cameras c entry (Some d) s) = s1"
    unfolding cut pre by (cases r) simp_all
  with add_cameras_state [OF pre] have "\<exists>new. map id' (devices
        (snd (async_process_motioneye_cameras c entry (Some d) s))) = map id' (devices s) @ new"
    by simp
  with none nokey cut show ?thesis by blast
qed

text \<open>
  The theorem at a poll of three cameras, the second without a name, in a state that
  knows the porch camera, which the poll does not list: the yard camera is added, the
  gate camera is not, and the porch device stays.
\<close>

theorem early_return_witness:
  "async_process_motioneye_cameras sample_env sample_entry_plain
     (Some [(''cameras'', [Some sample_yard, Some sample_nameless, Some sample_gate])])
     sample_state_porch
   = (None, sample_state_yard_added)"
proof -
  have acc: "\<forall>camera \<in> set [Some sample_yard]. is_acceptable_camera sample_env camera"
    by simp
  have bad: "\<not> is_acceptable_camera sample_env (Some sample_nameless)"
    by simp
  have cams: "map_of [(''cameras'', [Some sample_yard, Some sample_nameless, Some sample_gate])]
                (KEY_CAMERAS sample_env)
                = Some ([Some sample_yard] @ Some sample_nameless # [Some sample_gate])"
    by simp
  from early_return [OF cams acc bad, of sample_entry_plain sample_state_porch]
  show ?thesis
    by (simp add: sample_add_loop)
qed

text \<open>
  C3, for a poll that is not cut short. When every camera of the polled list is
  acceptable and no exception leaves the function (and \<^verbatim>\<open>KEY_ID\<close> is not one of the
  six web hook fields, so that setting the hooks keeps a camera's id), the cameras
  announced on the dispatcher during the poll, each with the camera-add signal of the
  entry, bear pairwise different device identifiers, which are exactly the identifiers
  of the list that were not in \<^verbatim>\<open>current_cameras\<close>: one add for each new identifier,
  none for a known one. After the first loop the registry holds a device of the entry
  for every new identifier, and after the poll \<^verbatim>\<open>current_cameras\<close> has grown by the
  identifiers of the list.
\<close>

theorem new_cameras_added_once:
  assumes "map_of d (KEY_CAMERAS c) = Some cams"
    and "\<forall>camera \<in> set cams. is_acceptable_camera c camera"
    and "KEY_ID c \<notin> set (webhook_keys c)"
    and "async_process_motioneye_cameras c entry (Some d) s = (None, s')"
  shows "current_cameras s' = current_cameras s \<union> polled_identifiers c entry cams
         \<and> (\<exists>new. dispatched s' = dispatched s @ new
                \<and> (\<forall>e \<in> set new. fst e = SIGNAL_CAMERA_ADD c (entry_id entry))
                \<and> distinct (map (identifier_of c entry \<circ> snd) new)
                \<and> set (map (identifier_of c entry \<circ> snd) new)
                     = polled_identifiers c entry cams - current_cameras s)
         \<and> (\<forall>i \<in> polled_identifiers c entry cams - current_cameras s.
               has_device entry i (devices (snd (add_cameras c entry cams {} s))))"
proof -
  from assms(1,2,4) obtain s1 where
    run: "add_cameras c entry cams {} s = (Completed (polled_identifiers c entry cams), s1)"
    and s': "s' = remove_stale entry (polled_identifiers c entry cams) s1"
    by (rule process_completed)
  from add_cameras_completed [OF assms(3) run] show ?thesis
    unfolding s' remove_stale_other run snd_conv by blast
qed

text \<open>
  The theorem at a poll listing the known porch camera and the new yard camera: only
  the yard camera is announced.
\<close>

theorem new_cameras_added_once_witness:
  "async_process_motioneye_cameras sample_env sample_entry_plain
     (Some [(''cameras'', [Some sample_porch, Some sample_yard])]) sample_state_porch
     = (None, sample_state_yard_added)
   \<and> current_cameras sample_state_yard_added
       = current_cameras sample_state_porch \<union> {(''motioneye'', ''e1_1''), (''motioneye'', ''e1_2'')}
   \<and> dispatched sample_state_yard_added
       = dispatched sample_state_porch @ [(''motioneye_camera_add_e1'', sample_yard)]"
proof -
  have acc: "\<forall>camera \<in> set [Some sample_porch, Some sample_yard].
               is_acceptable_camera sample_env camera"
    by simp
  have keys: "KEY_ID sample_env \<notin> set (webhook_keys sample_env)"
    by (simp add: webhook_keys_def)
  have cams: "map_of [(''cameras'', [Some sample_porch, Some sample_yard])] (KEY_CAMERAS sample_env)
                = Some [Some sample_porch, Some sample_yard]"
    by simp
  from new_cameras_added_once [OF cams acc keys sample_run_both]
  have "current_cameras sample_state_yard_added
          = current_cameras sample_state_porch
              \<union> polled_identifiers sample_env sample_entry_plain [Some sample_porch, Some sample_yard]"
    by blast
  then have "current_cameras sample_state_yard_added
       = current_cameras sample_state_porch \<union> {(''motioneye'', ''e1_1''), (''motioneye'', ''e1_2'')}"
    by (simp add: polled_identifiers_def)
  moreover have "dispatched sample_state_yard_added
       = dispatched sample_state_porch @ [(''motioneye_camera_add_e1'', sample_yard)]"
    by (simp add: sample_state_yard_added_def sample_state_porch_def sample_state_def)
  ultimately show ?thesis
    using sample_run_both by simp
qed

text \<open>
  C3 as the spec words it, for every acceptable camera of the list, fails behind a
  camera that is not acceptable: the nameless camera ends the poll, and the yard camera
  after it, acceptable and not yet in \<^verbatim>\<open>current_cameras\<close>, is not added.
\<close>

theorem new_cameras_added_once_counterexample:
  "async_process_motioneye_cameras sample_env sample_entry_plain
     (Some [(''cameras'', [Some sample_nameless, Some sample_yard])]) sample_state_porch
     = (None, sample_state_porch)
   \<and> is_acceptable_camera sample_env (Some sample_yard)
   \<and> identifier_of sample_env sample_entry_plain sample_yard \<notin> current_cameras sample_state_porch"
  by (simp add: async_process_motioneye_cameras_def add_cameras_unacceptable)

text \<open>
  C4, for a poll that is not cut short. When every camera of the polled list is
  acceptable and no exception leaves the function, then after the poll every device of
  the registry that is linked to the config entry has an identifier derived from a camera
  of the list: the stale devices are gone. The registry after the poll is the registry
  after the first loop without the devices that have the id of a stale device.
\<close>

theorem stale_devices_removed:
  assumes "map_of d (KEY_CAMERAS c) = Some cams"
    and "\<forall>camera \<in> set cams. is_acceptable_camera c camera"
    and "async_process_motioneye_cameras c entry (Some d) s = (None, s')"
  shows "(\<forall>dev \<in> set (devices s').
            entry_id entry \<in> config_entries dev
              \<longrightarrow> (\<exists>i \<in> identifiers dev. i \<in> polled_identifiers c entry cams))
         \<and> devices s' =
             filter (\<lambda>x. \<forall>dev \<in> set (devices (snd (add_cameras c entry cams {} s))).
                            stale entry (polled_identifiers c entry cams) dev \<longrightarrow> id' x \<noteq> id' dev)
               (devices (snd (add_cameras c entry cams {} s)))"
proof -
  from assms obtain s1 where
    run: "add_cameras c entry cams {} s = (Completed (polled_identifiers c entry cams), s1)"
    and s': "s' = remove_stale entry (polled_identifiers c entry cams) s1"
    by (rule process_completed)
  have devs: "devices s' =
      filter (\<lambda>x. \<forall>dev \<in> set (devices s1).
                     stale entry (polled_identifiers c entry cams) dev \<longrightarrow> id' x \<noteq> id' dev)
        (devices s1)"
    unfolding s' by (rule remove_stale_devices)
  have "\<exists>i \<in> identifiers dev. i \<in> polled_identifiers c entry cams"
    if "dev \<in> set (devices s')" and "entry_id entry \<in> config_entries dev" for dev
  proof (rule ccontr)
    assume "\<not> (\<exists>i \<in> identifiers dev. i \<in> polled_identifiers c entry cams)"
    with that(2) have "stale entry (polled_identifiers c entry cams) dev"
      by (simp add: stale_def)
    moreover from that(1) have "dev \<in> set (devices s1)"
      and "\<forall>d0 \<in> set (devices s1).
             stale entry (polled_identifiers c entry cams) d0 \<longrightarrow> id' dev \<noteq> id' d0"
      unfolding devs by simp_all
    ultimately show False by blast
  qed
  with devs run show ?thesis by simp
qed

text \<open>
  The theorem at a poll that lists only the yard camera, in a state whose registry
  holds the porch device: the porch device is removed.
\<close>

theorem stale_devices_removed_witness:
  "async_process_motioneye_cameras sample_env sample_entry_plain
     (Some [(''cameras'', [Some sample_yard])]) sample_state_porch
     = (None, sample_state_yard_added \<lparr> devices := [sample_yard_device] \<rparr>)
   \<and> sample_device \<in> set (devices sample_state_porch)
   \<and> sample_device \<notin> set (devices (sample_state_yard_added \<lparr> devices := [sample_yard_device] \<rparr>))"
proof -
  have acc: "\<forall>camera \<in> set [Some sample_yard]. is_acceptable_camera sample_env camera"
    by simp
  have cams: "map_of [(''cameras'', [Some sample_yard])] (KEY_CAMERAS sample_env)
                = Some [Some sample_yard]"
    by simp
  from stale_devices_removed [OF cams acc sample_run_yard]
  have post: "\<forall>dev \<in> set (devices (sample_state_yard_added \<lparr> devices := [sample_yard_device] \<rparr>)).
            entry_id sample_entry_plain \<in> config_entries dev
              \<longrightarrow> (\<exists>i \<in> identifiers dev.
                     i \<in> polled_identifiers sample_env sample_entry_plain [Some sample_yard])"
    by blast
  have "sample_device \<notin> set (devices (sample_state_yard_added \<lparr> devices := [sample_yard_device] \<rparr>))"
  proof
    assume "sample_device \<in> set (devices (sample_state_yard_added \<lparr> devices := [sample_yard_device] \<rparr>))"
    with post have "entry_id sample_entry_plain \<in> config_entries sample_device
              \<longrightarrow> (\<exists>i \<in> identifiers sample_device.
                     i \<in> polled_identifiers sample_env sample_entry_plain [Some sample_yard])"
      by blast
    then show False
      by (simp add: sample_device_def polled_identifiers_def)
  qed
  moreover have "sample_device \<in> set (devices sample_state_porch)"
    by (simp add: sample_state_porch_def)
  ultimately show ?thesis
    using sample_run_yard by simp
qed

text \<open>
  C4 as the spec words it, after each poll, fails on a poll that is cut short: the
  nameless camera ends the poll before the second loop, and the porch device, linked to
  the entry and with no identifier derived from the list, stays in the registry.
\<close>

theorem stale_devices_removed_counterexample:
  "async_process_motioneye_cameras sample_env sample_entry_plain
     (Some [(''cameras'', [Some sample_yard, Some sample_nameless])]) sample_state_porch
     = (None, sample_state_yard_added)
   \<and> sample_device \<in> set (devices sample_state_yard_added)
   \<and> entry_id sample_entry_plain \<in> config_entries sample_device
   \<and> identifiers sample_device = {(''motioneye'', ''e1_1'')}
   \<and> (''motioneye'', ''e1_1'')
        \<notin> polled_identifiers sample_env sample_entry_plain [Some sample_yard, Some sample_nameless]"
proof -
  have "identifier_of sample_env sample_entry_plain sample_nameless = (''motioneye'', ''e1_3'')"
    by (simp add: identifier_of_def get_motioneye_device_identifier_def sample_nameless_def
          dict_get_def dict_get_default_def str_int_digit)
  then have "(''motioneye'', ''e1_1'')
        \<notin> polled_identifiers sample_env sample_entry_plain [Some sample_yard, Some sample_nameless]"
    by (simp add: polled_identifiers_def)
  moreover have "sample_device \<in> set (devices sample_state_yard_added)"
    by (simp add: sample_state_yard_added_def)
  moreover have "entry_id sample_entry_plain \<in> config_entries sample_device"
    "identifiers sample_device = {(''motioneye'', ''e1_1'')}"
    by (simp_all add: sample_device_def)
  ultimately show ?thesis
    using sample_run_cut by simp
qed


end
